theory Spec2Isabelle
  imports Complex_Main "HOL-Library.Multiset" "HOL-Library.Product_Lexorder"
begin

section \<open>Cell values\<close>

text \<open>
  A numeric cell of a pandas table is a float64. It is modelled as an exact rational
  extended with the three special values of IEEE arithmetic: rounding and overflow are
  not modelled, the special values are, because the source divides by columns that may
  hold zero and compares against columns that may hold NaN. A zero is the positive zero.
  A missing value of any column is \<open>NaN\<close>, as in pandas.
\<close>

datatype float64 = Fin rat | PInf | NInf | NaN

fun isnan :: "float64 \<Rightarrow> bool" where
  "isnan NaN = True"
| "isnan _ = False"

fun sg :: "float64 \<Rightarrow> int" where
  "sg (Fin x) = (if x < 0 then - 1 else if x = 0 then 0 else 1)"
| "sg PInf = 1"
| "sg NInf = - 1"
| "sg NaN = 0"

fun fneg :: "float64 \<Rightarrow> float64" where
  "fneg (Fin x) = Fin (- x)"
| "fneg PInf = NInf"
| "fneg NInf = PInf"
| "fneg NaN = NaN"

fun fadd :: "float64 \<Rightarrow> float64 \<Rightarrow> float64" where
  "fadd NaN _ = NaN"
| "fadd _ NaN = NaN"
| "fadd (Fin a) (Fin b) = Fin (a + b)"
| "fadd PInf NInf = NaN"
| "fadd NInf PInf = NaN"
| "fadd PInf _ = PInf"
| "fadd _ PInf = PInf"
| "fadd NInf _ = NInf"
| "fadd _ NInf = NInf"

definition fsub :: "float64 \<Rightarrow> float64 \<Rightarrow> float64" where
  "fsub a b = fadd a (fneg b)"

fun fmul :: "float64 \<Rightarrow> float64 \<Rightarrow> float64" where
  "fmul NaN _ = NaN"
| "fmul _ NaN = NaN"
| "fmul (Fin a) (Fin b) = Fin (a * b)"
| "fmul a b = (if sg a * sg b = 0 then NaN else if 0 < sg a * sg b then PInf else NInf)"

text \<open>
  True division as numpy does it: a non-zero number over zero is an infinity, zero over
  zero and infinity over infinity are NaN, nothing raises.
\<close>

fun fdiv :: "float64 \<Rightarrow> float64 \<Rightarrow> float64" where
  "fdiv NaN _ = NaN"
| "fdiv _ NaN = NaN"
| "fdiv (Fin a) (Fin b) =
     (if b \<noteq> 0 then Fin (a / b)
      else if a = 0 then NaN else if 0 < a then PInf else NInf)"
| "fdiv (Fin a) _ = Fin 0"
| "fdiv a (Fin b) = (if b < 0 then fneg a else a)"
| "fdiv _ _ = NaN"

text \<open>\<open>fle a b\<close> is the comparison \<open>a <= b\<close>; it is false as soon as one side is NaN.\<close>

fun fle :: "float64 \<Rightarrow> float64 \<Rightarrow> bool" where
  "fle NaN _ = False"
| "fle _ NaN = False"
| "fle NInf _ = True"
| "fle _ PInf = True"
| "fle (Fin a) (Fin b) = (a \<le> b)"
| "fle _ _ = False"

text \<open>A cell is a number or a text (institution name, mission statement).\<close>

datatype cell = Num float64 | Str string

fun numv :: "cell \<Rightarrow> float64" where
  "numv (Num x) = x"
| "numv (Str s) = NaN"

fun is_num :: "cell \<Rightarrow> bool" where
  "is_num (Num x) = True"
| "is_num (Str s) = False"

text \<open>\<open>isna\<close> of pandas: a text is never missing.\<close>

fun isna :: "cell \<Rightarrow> bool" where
  "isna (Num x) = isnan x"
| "isna (Str s) = False"

section \<open>Tables\<close>

text \<open>
  A DataFrame is its list of column labels and its rows in order; a row pairs column
  labels with cells. The row index of pandas is not modelled: the source never looks a
  row up by label across tables, and resets the index of the report.
\<close>

type_synonym row = "(string \<times> cell) list"

text \<open>Reading, writing and removing the cell of a column in a row.\<close>

fun get :: "row \<Rightarrow> string \<Rightarrow> cell" where
  "get [] c = Num NaN"
| "get ((k, v) # r) c = (if k = c then v else get r c)"

fun put :: "string \<Rightarrow> cell \<Rightarrow> row \<Rightarrow> row" where
  "put c v [] = [(c, v)]"
| "put c v ((k, x) # r) = (if k = c then (c, v) # r else (k, x) # put c v r)"

definition del :: "string \<Rightarrow> row \<Rightarrow> row" where
  "del c r = filter (\<lambda>(k, v). k \<noteq> c) r"

record frame =
  columns :: "string list"
  rows :: "row list"

datatype error = KeyError string | TypeError

text \<open>
  A call that may raise gives \<open>Inl\<close> the exception or \<open>Inr\<close> its value;
  \<open>on_success\<close> goes on with the value and passes an exception up.
\<close>

definition on_success :: "error + 'a \<Rightarrow> ('a \<Rightarrow> error + 'b) \<Rightarrow> error + 'b" where
  "on_success m k = (case m of Inl e \<Rightarrow> Inl e | Inr x \<Rightarrow> k x)"

definition empty_frame :: frame where
  "empty_frame = \<lparr>columns = [], rows = []\<rparr>"

text \<open>The property \<open>.empty\<close>: no column or no row.\<close>

definition is_empty :: "frame \<Rightarrow> bool" where
  "is_empty df = (columns df = [] \<or> rows df = [])"

definition col :: "frame \<Rightarrow> string \<Rightarrow> float64 list" where
  "col df c = map (\<lambda>r. numv (get r c)) (rows df)"

text \<open>
  Arithmetic and ordering on a column raise TypeError when a row holds a text there.
\<close>

definition numeric_col :: "string \<Rightarrow> row list \<Rightarrow> bool" where
  "numeric_col c rs = list_all (\<lambda>r. is_num (get r c)) rs"

definition set_col :: "string \<Rightarrow> (row \<Rightarrow> cell) \<Rightarrow> frame \<Rightarrow> frame" where
  "set_col c f df =
     \<lparr>columns = (if c \<in> set (columns df) then columns df else columns df @ [c]),
      rows = map (\<lambda>r. put c (f r) r) (rows df)\<rparr>"

definition project :: "string list \<Rightarrow> frame \<Rightarrow> frame" where
  "project cs df =
     \<lparr>columns = cs, rows = map (\<lambda>r. map (\<lambda>c. (c, get r c)) cs) (rows df)\<rparr>"

definition head :: "nat \<Rightarrow> frame \<Rightarrow> frame" where
  "head n df = df\<lparr>rows := take n (rows df)\<rparr>"

definition missing_column :: "string list \<Rightarrow> frame \<Rightarrow> string option" where
  "missing_column cs df = find (\<lambda>c. c \<notin> set (columns df)) cs"

section \<open>Quantiles\<close>

text \<open>
  \<open>Series.quantile(q)\<close> with the default linear interpolation: missing values are
  left out, the rest is sorted, and the value at the fractional position \<open>(n - 1) * q\<close>
  is interpolated between its two neighbours the way numpy does it. No value gives NaN.
\<close>

fun asc_rank :: "float64 \<Rightarrow> nat \<times> rat" where
  "asc_rank NInf = (0, 0)"
| "asc_rank (Fin x) = (1, x)"
| "asc_rank PInf = (2, 0)"
| "asc_rank NaN = (3, 0)"

definition lerp :: "float64 \<Rightarrow> float64 \<Rightarrow> rat \<Rightarrow> float64" where
  "lerp a b t =
     (if 1 / 2 \<le> t then fsub b (fmul (fsub b a) (Fin (1 - t)))
      else fadd a (fmul (fsub b a) (Fin t)))"

definition quantile :: "rat \<Rightarrow> float64 list \<Rightarrow> float64" where
  "quantile q xs =
     (let vals = sort_key asc_rank (filter (\<lambda>x. \<not> isnan x) xs);
          n = length vals
      in if n = 0 then NaN
         else let h = of_nat (n - 1) * q;
                  lo = nat \<lfloor>h\<rfloor>;
                  hi = min (lo + 1) (n - 1)
              in lerp (vals ! lo) (vals ! hi) (h - of_nat lo))"

section \<open>Sorting a table by a column\<close>

text \<open>
  \<open>sort_values(by=c, ascending=False)\<close> is called with pandas' default algorithm,
  quicksort, which numpy documents as not stable and for which numpy chooses one of
  several kernels by the processor it runs on. The permutation that is applied is
  therefore a parameter \<open>argsort\<close> of the model: from the key column it gives the
  positions of the rows in their new order. All that is known of it in general is
  \<open>argsort_ok\<close>: the result is a permutation of the positions, the keys come out in
  descending order, and missing keys come last.
\<close>

fun desc_rank :: "float64 \<Rightarrow> nat \<times> rat" where
  "desc_rank PInf = (0, 0)"
| "desc_rank (Fin x) = (1, - x)"
| "desc_rank NInf = (2, 0)"
| "desc_rank NaN = (3, 0)"

definition descending :: "float64 list \<Rightarrow> bool" where
  "descending ks = sorted (map desc_rank ks)"

definition argsort_ok :: "(float64 list \<Rightarrow> nat list) \<Rightarrow> bool" where
  "argsort_ok argsort =
     (\<forall>ks. mset (argsort ks) = mset [0..<length ks]
          \<and> descending (map (\<lambda>i. ks ! i) (argsort ks)))"

definition sort_values :: "(float64 list \<Rightarrow> nat list) \<Rightarrow> string \<Rightarrow> frame \<Rightarrow> frame" where
  "sort_values argsort c df = df\<lparr>rows := map (\<lambda>i. rows df ! i) (argsort (col df c))\<rparr>"

text \<open>One sort that meets \<open>argsort_ok\<close>: the stable one.\<close>

definition stable_argsort :: "float64 list \<Rightarrow> nat list" where
  "stable_argsort ks = sort_key (\<lambda>i. desc_rank (ks ! i)) [0..<length ks]"

section \<open>The default sort\<close>

text \<open>
  What numpy and pandas do for \<open>kind='quicksort'\<close>, in numpy's portable form
  (\<open>aquicksort\<close> in \<open>npysort/quicksort.cpp\<close>). The array \<open>v\<close> holds the keys and
  \<open>tosort\<close> holds positions of \<open>v\<close>, which the sort rearranges. A range of
  \<open>tosort\<close> with more than 17 positions is partitioned around the median of its
  first, middle and last key by exchanges from both ends; a shorter range is sorted by
  insertion. Builds of numpy for processors with AVX2 or AVX-512 replace this function
  by sorting networks, which order equal keys in yet another way; they are not
  modelled.
\<close>

text \<open>The comparison of two keys: a NaN is greater than every number.\<close>

definition npy_less :: "float64 \<Rightarrow> float64 \<Rightarrow> bool" where
  "npy_less a b = (asc_rank a < asc_rank b)"

definition intp_swap :: "nat list \<Rightarrow> nat \<Rightarrow> nat \<Rightarrow> nat list" where
  "intp_swap tosort i j = tosort[i := tosort ! j, j := tosort ! i]"

text \<open>
  The two inner loops of the partition: \<open>do ++i while (v[tosort[i]] < vp)\<close>, started at
  \<open>i\<close> with \<open>n\<close> positions to its right, and \<open>do --j while (vp < v[tosort[j]])\<close>. In the
  source the pivot and the first key of the range stop them inside the range.
\<close>

fun scan_up :: "float64 list \<Rightarrow> float64 \<Rightarrow> nat list \<Rightarrow> nat \<Rightarrow> nat \<Rightarrow> nat" where
  "scan_up v vp tosort i 0 = i"
| "scan_up v vp tosort i (Suc n) =
     (if npy_less (v ! (tosort ! i)) vp then scan_up v vp tosort (i + 1) n else i)"

fun scan_down :: "float64 list \<Rightarrow> float64 \<Rightarrow> nat list \<Rightarrow> nat \<Rightarrow> nat" where
  "scan_down v vp tosort 0 = 0"
| "scan_down v vp tosort (Suc j) =
     (if npy_less vp (v ! (tosort ! Suc j)) then scan_down v vp tosort j else Suc j)"

text \<open>
  The loop \<open>for (;;)\<close> of the partition: both scans, then the exchange, until the scans
  meet. It gives the array and the position where the upward scan stopped.
\<close>

function exchange_loop ::
  "float64 list \<Rightarrow> float64 \<Rightarrow> nat list \<Rightarrow> nat \<Rightarrow> nat \<Rightarrow> nat list \<times> nat" where
  "exchange_loop v vp tosort i j =
     (let i' = scan_up v vp tosort (i + 1) (length tosort - (i + 1));
          j' = scan_down v vp tosort (j - 1)
      in if j' \<le> i' then (tosort, i')
         else exchange_loop v vp (intp_swap tosort i' j') i' j')"
  by pat_completeness auto
termination
proof (relation "measure (\<lambda>(v, vp, tosort, i, j). j - i)", goal_cases)
  case 1
  show ?case by simp
next
  case (2 v vp tosort i j i' j')
  have "k \<le> scan_up v vp tosort k n" for k n
    by (induction n arbitrary: k) (auto intro: order_trans [OF _ Suc_leD])
  then have "i + 1 \<le> i'" using 2(1) by simp
  moreover have "scan_down v vp tosort k \<le> k" for k
    by (induction k) auto
  then have "j' \<le> j - 1" using 2(2) by simp
  ultimately show ?case using 2(3) by simp
qed

text \<open>The partition of the range from \<open>pl\<close> to \<open>pr\<close>; it gives the place of the pivot.\<close>

definition median_of_three :: "float64 list \<Rightarrow> nat list \<Rightarrow> nat \<Rightarrow> nat \<Rightarrow> nat \<Rightarrow> nat list" where
  "median_of_three v tosort pl pm pr =
     (let tosort = (if npy_less (v ! (tosort ! pm)) (v ! (tosort ! pl))
                    then intp_swap tosort pm pl else tosort);
          tosort = (if npy_less (v ! (tosort ! pr)) (v ! (tosort ! pm))
                    then intp_swap tosort pr pm else tosort)
      in if npy_less (v ! (tosort ! pm)) (v ! (tosort ! pl))
         then intp_swap tosort pm pl else tosort)"

definition partition_range :: "float64 list \<Rightarrow> nat list \<Rightarrow> nat \<Rightarrow> nat \<Rightarrow> nat list \<times> nat" where
  "partition_range v tosort pl pr =
     (let pm = pl + (pr - pl) div 2;
          tosort = median_of_three v tosort pl pm pr;
          vp = v ! (tosort ! pm);
          tosort = intp_swap tosort pm (pr - 1);
          (tosort, i) = exchange_loop v vp tosort pl (pr - 1)
      in (intp_swap tosort i (pr - 1), i))"

text \<open>
  The insertion sort of a range: the position \<open>vi\<close> of key \<open>vp\<close> moves left past every
  position of a greater key, and past no position of an equal key.
\<close>

fun insert_left :: "float64 list \<Rightarrow> float64 \<Rightarrow> nat \<Rightarrow> nat \<Rightarrow> nat list \<Rightarrow> nat \<Rightarrow> nat list" where
  "insert_left v vp vi pl tosort 0 = tosort[0 := vi]"
| "insert_left v vp vi pl tosort (Suc k) =
     (if pl < Suc k \<and> npy_less vp (v ! (tosort ! k))
      then insert_left v vp vi pl (tosort[Suc k := tosort ! k]) k
      else tosort[Suc k := vi])"

definition insertion_sort :: "float64 list \<Rightarrow> nat list \<Rightarrow> nat \<Rightarrow> nat \<Rightarrow> nat list" where
  "insertion_sort v tosort pl pr =
     fold (\<lambda>i tosort. insert_left v (v ! (tosort ! i)) (tosort ! i) pl tosort i)
       [pl + 1..<pr + 1] tosort"

text \<open>
  The sort of a range. The source keeps the ranges still to sort on a stack; they do not
  overlap, so the order in which they are sorted does not matter, and the model sorts
  the left one first. \<open>cdepth\<close> counts the nested partitions that are left before numpy
  turns to heapsort, which is not modelled: the result is \<open>None\<close> then, as it is when
  the fuel \<open>n\<close> of the recursion runs out.
\<close>

fun sort_range ::
  "nat \<Rightarrow> int \<Rightarrow> float64 list \<Rightarrow> nat list \<Rightarrow> nat \<Rightarrow> nat \<Rightarrow> nat list option" where
  "sort_range 0 cdepth v tosort pl pr = None"
| "sort_range (Suc n) cdepth v tosort pl pr =
     (if 16 < pr - pl then
        (let (tosort, i) = partition_range v tosort pl pr in
         if cdepth - 1 < 0 then None
         else case sort_range n (cdepth - 1) v tosort pl (i - 1) of
                None \<Rightarrow> None
              | Some tosort \<Rightarrow> sort_range n (cdepth - 1) v tosort (i + 1) pr)
      else Some (insertion_sort v tosort pl pr))"

fun npy_get_msb :: "nat \<Rightarrow> nat" where
  "npy_get_msb n = (if n \<le> 1 then 0 else 1 + npy_get_msb (n div 2))"

text \<open>\<open>v.argsort(kind='quicksort')\<close>: the positions of \<open>v\<close> by ascending key.\<close>

definition aquicksort :: "float64 list \<Rightarrow> nat list option" where
  "aquicksort v =
     (let num = length v
      in sort_range (Suc num) (2 * int (npy_get_msb num)) v [0..<num] 0 (num - 1))"

text \<open>
  \<open>nargsort(items, kind='quicksort', ascending=False, na_position='last')\<close> of pandas,
  which \<open>sort_values\<close> calls: the keys that are not missing are reversed, sorted by
  ascending key, and the result is reversed; the positions of the missing keys follow.
\<close>

definition nargsort :: "float64 list \<Rightarrow> nat list option" where
  "nargsort items =
     (let idx = [0..<length items];
          non_nan_idx = rev (filter (\<lambda>i. \<not> isnan (items ! i)) idx);
          non_nans = map (\<lambda>i. items ! i) non_nan_idx;
          nan_idx = filter (\<lambda>i. isnan (items ! i)) idx
      in map_option (\<lambda>indexer. rev (map (\<lambda>k. non_nan_idx ! k) indexer) @ nan_idx)
           (aquicksort non_nans))"

text \<open>The sort as a value for the parameter; where the model has no answer, no row moves.\<close>

definition quicksort_argsort :: "float64 list \<Rightarrow> nat list" where
  "quicksort_argsort ks = (case nargsort ks of Some indexer \<Rightarrow> indexer | None \<Rightarrow> [0..<length ks])"

section \<open>Console output\<close>

text \<open>
  One constructor for each \<open>print\<close> of the source, in the order of the source, with
  what the line interpolates: a file name, the missing column, a count, the path of the
  output file. \<open>Final_Output\<close> stands for the lines that introduce and show the table
  and the charts, \<open>No_Colleges_Met\<close> for "No colleges met the stringent criteria".
\<close>

datatype message =
    Starting
  | File_Not_Found string
  | Filter_Ok
  | Critical_Filter_Error string
  | Data_Loaded nat
  | Critical_Admissions_Error string
  | Critical_Graduation_Rate_Error string
  | Critical_Mission_Error string
  | Initial_Merge_Size nat
  | Metrics_Calculated
  | Relaxing_Warning nat
  | Report_Generated nat
  | Saved_To string string
  | Final_Output
  | No_Colleges_Met

section \<open>The Insight Generator\<close>

text \<open>Lines 151 to 158 of \<open>generate_insights\<close>: the two strict filters, one after the other.\<close>

definition tier1 :: "frame \<Rightarrow> row list" where
  "tier1 df =
     (let final_df = rows df;
          final_df = filter (\<lambda>r. fle (numv (get r ''Net_Price_MidClass'')) (Fin 25000)) final_df;
          mgi_threshold = quantile (1 / 2) (col df ''MGI'')
      in filter (\<lambda>r. fle mgi_threshold (numv (get r ''MGI''))) final_df)"

text \<open>Lines 163 to 166: the relaxed selection, taken from the whole table.\<close>

definition fallback :: "frame \<Rightarrow> row list" where
  "fallback df =
     filter (\<lambda>r. fle (numv (get r ''Net_Price_MidClass'')) (quantile (3 / 10) (col df ''Net_Price_MidClass''))
               \<and> fle (quantile (8 / 10) (col df ''MGI'')) (numv (get r ''MGI'')))
       (rows df)"

text \<open>Lines 151 to 166: \<open>final_df\<close> as it stands before the ranking.\<close>

definition select_candidates :: "frame \<Rightarrow> frame" where
  "select_candidates df =
     (let final_df = tier1 df
      in if length final_df < 10 then df\<lparr>rows := fallback df\<rparr> else df\<lparr>rows := final_df\<rparr>)"

definition selection_messages :: "frame \<Rightarrow> message list" where
  "selection_messages df =
     (if length (tier1 df) < 10 then [Relaxing_Warning (length (tier1 df))] else [])"

definition composite_score :: "row \<Rightarrow> cell" where
  "composite_score r =
     Num (fdiv (fadd (numv (get r ''MGI'')) (numv (get r ''Graduation_Rate_4yr'')))
               (numv (get r ''NET_PRICE_RATIO'')))"

definition report_columns :: "string list" where
  "report_columns =
     [''UNITID'', ''INSTNM'', ''CONTROL'', ''Sticker_Price'', ''Avg_Inst_Grant'',
      ''Net_Price_MidClass'', ''MGI'', ''Graduation_Rate_4yr'', ''Admissions_Rate'',
      ''SATVR75'', ''SATMT75'', ''Composite_Score'', ''MISSION'']"

text \<open>Lines 169 to 178: score, sort, project, keep the first twenty rows.\<close>

definition rank_candidates :: "(float64 list \<Rightarrow> nat list) \<Rightarrow> frame \<Rightarrow> frame" where
  "rank_candidates argsort final_df =
     (let final_df = set_col ''Composite_Score'' composite_score final_df;
          final_df = sort_values argsort ''Composite_Score'' final_df
      in head 20 (project report_columns final_df))"

text \<open>
  \<open>generate_insights\<close>, with the exceptions of its column accesses in the order in
  which the source reaches them.
\<close>

definition generate_insights ::
  "(float64 list \<Rightarrow> nat list) \<Rightarrow> frame \<Rightarrow> error + (message list \<times> frame)" where
  "generate_insights argsort df =
     (if ''Net_Price_MidClass'' \<notin> set (columns df) then Inl (KeyError ''Net_Price_MidClass'')
      else if \<not> numeric_col ''Net_Price_MidClass'' (rows df) then Inl TypeError
      else if ''MGI'' \<notin> set (columns df) then Inl (KeyError ''MGI'')
      else if \<not> numeric_col ''MGI'' (rows df) then Inl TypeError
      else
        let final_df = select_candidates df in
        if ''Graduation_Rate_4yr'' \<notin> set (columns df) then Inl (KeyError ''Graduation_Rate_4yr'')
        else if \<not> numeric_col ''Graduation_Rate_4yr'' (rows final_df) then Inl TypeError
        else if ''NET_PRICE_RATIO'' \<notin> set (columns df) then Inl (KeyError ''NET_PRICE_RATIO'')
        else if \<not> numeric_col ''NET_PRICE_RATIO'' (rows final_df) then Inl TypeError
        else
          (case missing_column report_columns (set_col ''Composite_Score'' composite_score final_df) of
             Some c \<Rightarrow> Inl (KeyError c)
           | None \<Rightarrow> Inr (selection_messages df, rank_candidates argsort final_df)))"

section \<open>The Metric Calculator\<close>

text \<open>\<open>df[[c1, ..., cn]]\<close>: KeyError on the first label that is not a column.\<close>

definition select :: "string list \<Rightarrow> frame \<Rightarrow> error + frame" where
  "select cs df =
     (case missing_column cs df of Some c \<Rightarrow> Inl (KeyError c) | None \<Rightarrow> Inr (project cs df))"

text \<open>\<open>rename(columns={old: new})\<close>; a label that is not a column is ignored.\<close>

definition rename_row :: "string \<Rightarrow> string \<Rightarrow> row \<Rightarrow> row" where
  "rename_row old new r = put new (get r old) (del old r)"

definition rename :: "string \<Rightarrow> string \<Rightarrow> frame \<Rightarrow> frame" where
  "rename old new df =
     (if old \<in> set (columns df)
      then \<lparr>columns = map (\<lambda>c. if c = old then new else c) (columns df),
            rows = map (rename_row old new) (rows df)\<rparr>
      else df)"

text \<open>
  \<open>left.merge(right, on=key, how=...)\<close>. The result has the columns of the left table,
  then those of the right one but the key. Its rows follow the rows of the left table;
  a left row is paired with every right row of the same key, in the order of the right
  table. A left row without partner is dropped by the inner join and kept by the left
  join, with NaN in the columns of the right table.
\<close>

definition partners :: "string \<Rightarrow> row \<Rightarrow> frame \<Rightarrow> row list" where
  "partners key l right = filter (\<lambda>r. get r key = get l key) (rows right)"

definition other_columns :: "string \<Rightarrow> frame \<Rightarrow> string list" where
  "other_columns key right = filter (\<lambda>c. c \<noteq> key) (columns right)"

definition paired :: "string list \<Rightarrow> row \<Rightarrow> row \<Rightarrow> row" where
  "paired cs l r = fold (\<lambda>c. put c (get r c)) cs l"

definition unpaired :: "string list \<Rightarrow> row \<Rightarrow> row" where
  "unpaired cs l = fold (\<lambda>c. put c (Num NaN)) cs l"

definition merge_inner :: "string \<Rightarrow> frame \<Rightarrow> frame \<Rightarrow> frame" where
  "merge_inner key left right =
     (let cs = other_columns key right
      in \<lparr>columns = columns left @ cs,
          rows = concat (map (\<lambda>l. map (paired cs l) (partners key l right)) (rows left))\<rparr>)"

definition merge_left :: "string \<Rightarrow> frame \<Rightarrow> frame \<Rightarrow> frame" where
  "merge_left key left right =
     (let cs = other_columns key right
      in \<lparr>columns = columns left @ cs,
          rows = concat (map (\<lambda>l. if partners key l right = [] then [unpaired cs l]
                                    else map (paired cs l) (partners key l right))
                          (rows left))\<rparr>)"

text \<open>\<open>dropna(subset=cs)\<close>: a row stays when none of its cells in \<open>cs\<close> is missing.\<close>

definition dropna :: "string list \<Rightarrow> frame \<Rightarrow> frame" where
  "dropna cs df = df\<lparr>rows := filter (\<lambda>r. list_all (\<lambda>c. \<not> isna (get r c)) cs) (rows df)\<rparr>"

text \<open>
  \<open>Series.median()\<close>: missing values are left out; the middle value, or the mean of the
  two middle values; NaN when nothing is left.
\<close>

definition median :: "float64 list \<Rightarrow> float64" where
  "median xs =
     (let vals = sort_key asc_rank (filter (\<lambda>x. \<not> isnan x) xs);
          n = length vals
      in if n = 0 then NaN
         else if odd n then vals ! (n div 2)
         else fdiv (fadd (vals ! (n div 2 - 1)) (vals ! (n div 2))) (Fin 2))"

text \<open>Step 3.4 of the source: the five left joins, starting from the institutions.\<close>

definition merge_all :: "frame \<Rightarrow> frame \<Rightarrow> frame \<Rightarrow> frame \<Rightarrow> frame \<Rightarrow> frame \<Rightarrow> frame" where
  "merge_all hd_df ic_data sfa_data_merged adm_data_merged gr_data mission_data =
     (let merged_df = merge_left ''UNITID'' hd_df ic_data;
          merged_df = merge_left ''UNITID'' merged_df sfa_data_merged;
          merged_df = merge_left ''UNITID'' merged_df adm_data_merged;
          merged_df = merge_left ''UNITID'' merged_df gr_data
      in merge_left ''UNITID'' merged_df mission_data)"

text \<open>
  Line 125 fills the graduation rate through the column:
  \<open>merged_df['GBA4RTT'].fillna(merged_df['GBA4RTT'].median(), inplace=True)\<close>. The
  fill acts on the object that the indexing \<open>merged_df['GBA4RTT']\<close> returns. Without
  copy-on-write, the default of pandas before version 3.0, that object shares its values
  with the table, and the table is filled. With copy-on-write, an option of pandas 2 and
  the only mode from pandas 3.0 on, the object is a copy: the copy is filled and the
  table keeps its missing values. The repository names no version of pandas, so the
  mode is a parameter \<open>copy_on_write\<close> of the model.
\<close>

definition fill_graduation_rate :: "bool \<Rightarrow> frame \<Rightarrow> frame" where
  "fill_graduation_rate copy_on_write merged_df =
     (let m = median (col merged_df ''GBA4RTT'')
      in if copy_on_write then merged_df
         else set_col ''GBA4RTT''
                (\<lambda>r. if isna (get r ''GBA4RTT'') then Num m else get r ''GBA4RTT'') merged_df)"

text \<open>Lines 122 to 142: the derived columns.\<close>

definition rename_for_readability :: "frame \<Rightarrow> frame" where
  "rename_for_readability merged_df =
     rename ''mission'' ''MISSION''
       (rename ''DVADM01'' ''Admissions_Rate''
         (rename ''GBA4RTT'' ''Graduation_Rate_4yr''
           (rename ''NPT442'' ''Net_Price_MidClass''
             (rename ''IGRNT_A'' ''Avg_Inst_Grant''
               (rename ''TUITION2'' ''Sticker_Price'' merged_df)))))"

definition derive_metrics :: "bool \<Rightarrow> frame \<Rightarrow> error + frame" where
  "derive_metrics copy_on_write merged_df =
     (if \<not> (numeric_col ''IGRNT_A'' (rows merged_df) \<and> numeric_col ''TUITION2'' (rows merged_df))
      then Inl TypeError
      else
        let merged_df = set_col ''MGI''
              (\<lambda>r. Num (fdiv (numv (get r ''IGRNT_A'')) (numv (get r ''TUITION2'')))) merged_df in
        if \<not> numeric_col ''GBA4RTT'' (rows merged_df) then Inl TypeError
        else
          let merged_df = fill_graduation_rate copy_on_write merged_df in
          if \<not> numeric_col ''NPT442'' (rows merged_df) then Inl TypeError
          else
            let merged_df = set_col ''NET_PRICE_RATIO''
                  (\<lambda>r. Num (fdiv (numv (get r ''NPT442'')) (numv (get r ''TUITION2'')))) merged_df;
                merged_df = rename_for_readability merged_df;
                merged_df = set_col ''Graduation_Rate_4yr''
                  (\<lambda>r. Num (fdiv (numv (get r ''Graduation_Rate_4yr'')) (Fin 100))) merged_df in
            if \<not> numeric_col ''Admissions_Rate'' (rows merged_df) then Inl TypeError
            else Inr (set_col ''Admissions_Rate''
                  (\<lambda>r. Num (fdiv (numv (get r ''Admissions_Rate'')) (Fin 100))) merged_df))"

text \<open>
  \<open>calculate_metrics\<close>. A KeyError of the selections at lines 71, 72 and 93 and of the
  first merge is not caught; one of the selections at lines 79, 80, 97 and 105 is caught,
  reported, and answered with an empty table.
\<close>

definition except_KeyError ::
  "(string \<Rightarrow> message) \<Rightarrow> error + frame \<Rightarrow> (frame \<Rightarrow> error + (message list \<times> frame))
     \<Rightarrow> error + (message list \<times> frame)" where
  "except_KeyError report m k =
     (case m of
        Inl (KeyError c) \<Rightarrow> Inr ([report c], empty_frame)
      | Inl TypeError \<Rightarrow> Inl TypeError
      | Inr x \<Rightarrow> k x)"

definition calculate_metrics ::
  "bool \<Rightarrow> frame \<Rightarrow> frame \<Rightarrow> frame \<Rightarrow> frame \<Rightarrow> frame \<Rightarrow> frame \<Rightarrow> frame \<Rightarrow> frame
     \<Rightarrow> error + (message list \<times> frame)" where
  "calculate_metrics copy_on_write hd_df sfa_p1 sfa_p2 ic adm_sat adm_rate gr mission =
     on_success (select [''UNITID'', ''IGRNT_A''] sfa_p1) (\<lambda>sfa1.
     on_success (select [''UNITID'', ''NPT442''] sfa_p2) (\<lambda>sfa2.
     let sfa_data_merged = merge_inner ''UNITID'' sfa1 sfa2 in
     except_KeyError Critical_Admissions_Error
       (select [''UNITID'', ''SATVR75'', ''SATMT75''] adm_sat) (\<lambda>adm_sat_data.
     except_KeyError Critical_Admissions_Error
       (select [''UNITID'', ''DVADM01''] adm_rate) (\<lambda>adm_rate_data.
     let adm_data_merged = merge_left ''UNITID'' adm_sat_data adm_rate_data in
     on_success (select [''UNITID'', ''TUITION2''] ic) (\<lambda>ic_data.
     except_KeyError Critical_Graduation_Rate_Error
       (select [''UNITID'', ''GBA4RTT''] gr) (\<lambda>gr_data.
     except_KeyError Critical_Mission_Error
       (select [''unitid'', ''mission''] mission) (\<lambda>mission_sel.
     let mission_data = rename ''unitid'' ''UNITID'' mission_sel in
     if ''UNITID'' \<notin> set (columns hd_df) then Inl (KeyError ''UNITID'')
     else
       let merged_df = merge_all hd_df ic_data sfa_data_merged adm_data_merged gr_data mission_data;
           merged_df = dropna [''TUITION2'', ''IGRNT_A'', ''NPT442''] merged_df
       in on_success (derive_metrics copy_on_write merged_df) (\<lambda>df. Inr ([], df)))))))))"

text \<open>
  The table that \<open>calculate_metrics\<close> has before line 122 when no selection fails: the
  merges of lines 71 to 116 and the drop of line 119.
\<close>

definition join_sequence ::
  "frame \<Rightarrow> frame \<Rightarrow> frame \<Rightarrow> frame \<Rightarrow> frame \<Rightarrow> frame \<Rightarrow> frame \<Rightarrow> frame \<Rightarrow> frame" where
  "join_sequence hd_df sfa_p1 sfa_p2 ic adm_sat adm_rate gr mission =
     (let aid = merge_inner ''UNITID'' (project [''UNITID'', ''IGRNT_A''] sfa_p1)
                  (project [''UNITID'', ''NPT442''] sfa_p2);
          admissions = merge_left ''UNITID'' (project [''UNITID'', ''SATVR75'', ''SATMT75''] adm_sat)
                         (project [''UNITID'', ''DVADM01''] adm_rate);
          step3 = merge_left ''UNITID'' hd_df (project [''UNITID'', ''TUITION2''] ic);
          step4 = merge_left ''UNITID'' step3 aid;
          step5 = merge_left ''UNITID'' step4 admissions;
          step6 = merge_left ''UNITID'' step5 (project [''UNITID'', ''GBA4RTT''] gr);
          step7 = merge_left ''UNITID'' step6
                    (rename ''unitid'' ''UNITID'' (project [''unitid'', ''mission''] mission))
      in step7\<lparr>rows := filter (\<lambda>r. \<not> isna (get r ''TUITION2'') \<and> \<not> isna (get r ''IGRNT_A'')
                                    \<and> \<not> isna (get r ''NPT442'')) (rows step7)\<rparr>)"

text \<open>What lines 122 to 142 make of one row, given the median of the graduation rates.\<close>

definition derived_row :: "bool \<Rightarrow> float64 \<Rightarrow> row \<Rightarrow> row" where
  "derived_row copy_on_write med r =
     (let r = put ''MGI'' (Num (fdiv (numv (get r ''IGRNT_A'')) (numv (get r ''TUITION2'')))) r;
          r = (if copy_on_write then r
               else put ''GBA4RTT''
                      (if isna (get r ''GBA4RTT'') then Num med else get r ''GBA4RTT'') r);
          r = put ''NET_PRICE_RATIO''
                (Num (fdiv (numv (get r ''NPT442'')) (numv (get r ''TUITION2'')))) r;
          r = rename_row ''TUITION2'' ''Sticker_Price'' r;
          r = rename_row ''IGRNT_A'' ''Avg_Inst_Grant'' r;
          r = rename_row ''NPT442'' ''Net_Price_MidClass'' r;
          r = rename_row ''GBA4RTT'' ''Graduation_Rate_4yr'' r;
          r = rename_row ''DVADM01'' ''Admissions_Rate'' r;
          r = rename_row ''mission'' ''MISSION'' r;
          r = put ''Graduation_Rate_4yr''
                (Num (fdiv (numv (get r ''Graduation_Rate_4yr'')) (Fin 100))) r
      in put ''Admissions_Rate'' (Num (fdiv (numv (get r ''Admissions_Rate'')) (Fin 100))) r)"

definition has_old_columns :: "frame \<Rightarrow> bool" where
  "has_old_columns m =
     list_all (\<lambda>c. c \<in> set (columns m))
       [''TUITION2'', ''IGRNT_A'', ''NPT442'', ''GBA4RTT'', ''DVADM01'', ''mission'']"

section \<open>The Table Loader\<close>

text \<open>
  The file system gives, for a directory and a file name, the table that \<open>read_csv\<close>
  parses from that file, or nothing when the file does not exist.
\<close>

type_synonym filesystem = "string \<Rightarrow> string \<Rightarrow> frame option"

definition backslash :: char where
  "backslash = CHR 0x5C"

definition IPEDS_BASE_PATH :: string where
  "IPEDS_BASE_PATH =
     ''C:'' @ [backslash] @ ''Users'' @ [backslash] @ ''amatu'' @ [backslash]
       @ ''Downloads'' @ [backslash] @ ''Phase_3''"

definition OUTPUT_FILE :: string where
  "OUTPUT_FILE = ''final_merit_college_rankings.csv''"

definition ESSENTIAL_FILES :: "(string \<times> string) list" where
  "ESSENTIAL_FILES =
     [(''hd'', ''HD2022.csv''),
      (''sfa_p1'', ''SFA2122_P1.csv''),
      (''sfa_p2'', ''SFA2122_P2.csv''),
      (''ic'', ''IC2022_AY.csv''),
      (''adm_sat'', ''ADM2022.csv''),
      (''adm_rate'', ''DRVADM2022.csv''),
      (''gr'', ''DRVGR2022.csv''),
      (''mission'', ''IC2022Mission.csv'')]"

text \<open>Step 2.1: the loop over the files; it stops at the first file that is not there.\<close>

fun load_core_tables ::
  "filesystem \<Rightarrow> string \<Rightarrow> (string \<times> string) list \<Rightarrow> (string \<rightharpoonup> frame)
     \<Rightarrow> message + (string \<rightharpoonup> frame)" where
  "load_core_tables fs base_path [] data = Inr data"
| "load_core_tables fs base_path ((key, filename) # files_map) data =
     (case fs base_path filename of
        None \<Rightarrow> Inl (File_Not_Found filename)
      | Some df \<Rightarrow> load_core_tables fs base_path files_map (data(key \<mapsto> df)))"

text \<open>Step 2.2: \<open>replace([-1, -2, -9], np.nan, inplace=True)\<close> on six of the tables.\<close>

definition replace_cell :: "cell \<Rightarrow> cell" where
  "replace_cell c =
     (if c = Num (Fin (- 1)) \<or> c = Num (Fin (- 2)) \<or> c = Num (Fin (- 9)) then Num NaN else c)"

definition replace_special :: "frame \<Rightarrow> frame" where
  "replace_special df = df\<lparr>rows := map (map (\<lambda>(k, v). (k, replace_cell v))) (rows df)\<rparr>"

fun clean_tables :: "string list \<Rightarrow> (string \<rightharpoonup> frame) \<Rightarrow> (string \<rightharpoonup> frame)" where
  "clean_tables [] data = data"
| "clean_tables (df_name # names) data =
     (case data df_name of
        None \<Rightarrow> clean_tables names data
      | Some df \<Rightarrow> clean_tables names (data(df_name \<mapsto> replace_special df)))"

definition survey_tables :: "string list" where
  "survey_tables = [''sfa_p1'', ''sfa_p2'', ''ic'', ''adm_sat'', ''adm_rate'', ''gr'']"

text \<open>
  Step 2.3: the filter on the institution directory. Its KeyError is caught and answered
  with \<open>None\<close>; the TypeError of \<open>>=\<close> on a text is not caught.
\<close>

definition filter_institutions :: "frame \<Rightarrow> error + frame" where
  "filter_institutions hd_df =
     (if ''ICLEVEL'' \<notin> set (columns hd_df) then Inl (KeyError ''ICLEVEL'')
      else if ''HDEGOFR1'' \<notin> set (columns hd_df) then Inl (KeyError ''HDEGOFR1'')
      else if \<not> numeric_col ''HDEGOFR1'' (rows hd_df) then Inl TypeError
      else if ''UNITID'' \<notin> set (columns hd_df) then Inl (KeyError ''UNITID'')
      else select [''UNITID'', ''INSTNM'', ''CONTROL'']
             (hd_df\<lparr>rows := filter (\<lambda>r. get r ''ICLEVEL'' = Num (Fin 1)
                                       \<and> fle (Fin 3) (numv (get r ''HDEGOFR1''))
                                       \<and> \<not> isna (get r ''UNITID'')) (rows hd_df)\<rparr>))"

record tables =
  t_hd :: frame
  t_sfa_p1 :: frame
  t_sfa_p2 :: frame
  t_ic :: frame
  t_adm_sat :: frame
  t_adm_rate :: frame
  t_gr :: frame
  t_mission :: frame

definition lookup :: "(string \<rightharpoonup> frame) \<Rightarrow> string \<Rightarrow> error + frame" where
  "lookup data key = (case data key of None \<Rightarrow> Inl (KeyError key) | Some df \<Rightarrow> Inr df)"

definition return_tables :: "frame \<Rightarrow> (string \<rightharpoonup> frame) \<Rightarrow> error + tables" where
  "return_tables hd_filtered data =
     on_success (lookup data ''sfa_p1'') (\<lambda>sfa_p1.
     on_success (lookup data ''sfa_p2'') (\<lambda>sfa_p2.
     on_success (lookup data ''ic'') (\<lambda>ic.
     on_success (lookup data ''adm_sat'') (\<lambda>adm_sat.
     on_success (lookup data ''adm_rate'') (\<lambda>adm_rate.
     on_success (lookup data ''gr'') (\<lambda>gr.
     on_success (lookup data ''mission'') (\<lambda>mission.
     Inr \<lparr>t_hd = hd_filtered, t_sfa_p1 = sfa_p1, t_sfa_p2 = sfa_p2, t_ic = ic,
          t_adm_sat = adm_sat, t_adm_rate = adm_rate, t_gr = gr, t_mission = mission\<rparr>)))))))"

text \<open>
  \<open>load_and_clean_data\<close>: an exception (\<open>Inl\<close>), or what was printed with the tables
  returned, \<open>None\<close> standing for Python's \<open>None\<close>.
\<close>

definition filter_and_return :: "(string \<rightharpoonup> frame) \<Rightarrow> frame \<Rightarrow> error + (message list \<times> tables option)" where
  "filter_and_return data hd_df =
     (case filter_institutions hd_df of
        Inl (KeyError c) \<Rightarrow> Inr ([Critical_Filter_Error c], None)
      | Inl TypeError \<Rightarrow> Inl TypeError
      | Inr hd_filtered \<Rightarrow>
          on_success (return_tables hd_filtered data) (\<lambda>t. Inr ([Filter_Ok], Some t)))"

definition load_and_clean_data ::
  "filesystem \<Rightarrow> string \<Rightarrow> (string \<times> string) list
     \<Rightarrow> error + (message list \<times> tables option)" where
  "load_and_clean_data fs base_path files_map =
     (case load_core_tables fs base_path files_map Map.empty of
        Inl m \<Rightarrow> Inr ([m], None)
      | Inr loaded \<Rightarrow>
          (let data = clean_tables survey_tables loaded
           in on_success (lookup data ''hd'') (filter_and_return data)))"

section \<open>The pipeline\<close>

text \<open>
  A run of the pipeline under one mode of pandas and one sort. What it leaves behind:
  the lines printed, the file written by \<open>to_csv\<close> (directory,
  name, content), whether the two charts were shown, and the exception that ended the
  run, if one did. Lines printed by a call that raises are not recorded.
\<close>

record outcome =
  printed :: "message list"
  written :: "(string \<times> string \<times> frame) option"
  charts_shown :: bool
  raised :: "error option"

definition stop :: "message list \<Rightarrow> outcome" where
  "stop ms = \<lparr>printed = ms, written = None, charts_shown = False, raised = None\<rparr>"

definition raise :: "message list \<Rightarrow> error \<Rightarrow> outcome" where
  "raise ms e = \<lparr>printed = ms, written = None, charts_shown = False, raised = Some e\<rparr>"

text \<open>Steps 4 and 5 of the pipeline: the file is written, then the charts or the notice.\<close>

definition save_and_show :: "message list \<Rightarrow> frame \<Rightarrow> outcome" where
  "save_and_show ms final_report =
     (let p = ms @ [Report_Generated (length (rows final_report)), Saved_To IPEDS_BASE_PATH OUTPUT_FILE];
          file = Some (IPEDS_BASE_PATH, OUTPUT_FILE, final_report)
      in if \<not> is_empty final_report
         then \<lparr>printed = p @ [Final_Output], written = file,
               charts_shown = True, raised = None\<rparr>
         else \<lparr>printed = p @ [No_Colleges_Met], written = file,
               charts_shown = False, raised = None\<rparr>)"

text \<open>Step 3 of the pipeline.\<close>

definition rank_and_save :: "(float64 list \<Rightarrow> nat list) \<Rightarrow> message list \<Rightarrow> frame \<Rightarrow> outcome" where
  "rank_and_save argsort ms merged_data =
     (if is_empty merged_data then stop ms
      else
        (let p = ms @ [Initial_Merge_Size (length (rows merged_data)), Metrics_Calculated]
         in case generate_insights argsort merged_data of
              Inl e \<Rightarrow> raise p e
            | Inr (m3, final_report) \<Rightarrow> save_and_show (p @ m3) final_report))"

text \<open>Step 2 of the pipeline.\<close>

definition transform_and_rank ::
  "bool \<Rightarrow> (float64 list \<Rightarrow> nat list) \<Rightarrow> message list \<Rightarrow> tables \<Rightarrow> outcome" where
  "transform_and_rank copy_on_write argsort ms t =
     (let p = ms @ [Data_Loaded (length ESSENTIAL_FILES)]
      in case calculate_metrics copy_on_write (t_hd t) (t_sfa_p1 t) (t_sfa_p2 t) (t_ic t)
                (t_adm_sat t) (t_adm_rate t) (t_gr t) (t_mission t) of
           Inl e \<Rightarrow> raise p e
         | Inr (m2, merged_data) \<Rightarrow> rank_and_save argsort (p @ m2) merged_data)"

definition run_phase_3_pipeline ::
  "bool \<Rightarrow> (float64 list \<Rightarrow> nat list) \<Rightarrow> filesystem \<Rightarrow> outcome" where
  "run_phase_3_pipeline copy_on_write argsort fs =
     (case load_and_clean_data fs IPEDS_BASE_PATH ESSENTIAL_FILES of
        Inl e \<Rightarrow> raise [Starting] e
      | Inr (m1, None) \<Rightarrow> stop (Starting # m1)
      | Inr (m1, Some t) \<Rightarrow> transform_and_rank copy_on_write argsort (Starting # m1) t)"

section \<open>The Insight Generator on a store of tables\<close>

text \<open>
  Python passes tables by reference, and one statement of \<open>generate_insights\<close> writes
  into a table in place (\<open>final_df['Composite_Score'] = ...\<close>). To see which table
  that is, the function is modelled a second time on a store: a table is an object at an
  address, \<open>copy\<close>, a selection by a mask, \<open>sort_values\<close>, a projection, \<open>head\<close>
  and \<open>reset_index\<close> each make a new object, and the column assignment changes the
  object its variable points to.
\<close>

type_synonym heap = "frame list"

definition alloc :: "frame \<Rightarrow> heap \<Rightarrow> nat \<times> heap" where
  "alloc df h = (length h, h @ [df])"

definition update :: "nat \<Rightarrow> (frame \<Rightarrow> frame) \<Rightarrow> heap \<Rightarrow> heap" where
  "update a f h = h[a := f (h ! a)]"

definition where_rows :: "(row \<Rightarrow> bool) \<Rightarrow> frame \<Rightarrow> frame" where
  "where_rows p df = df\<lparr>rows := filter p (rows df)\<rparr>"

text \<open>\<open>x[mask].copy()\<close>: the selection is a new table, and so is its copy.\<close>

definition select_copy :: "(row \<Rightarrow> bool) \<Rightarrow> nat \<Rightarrow> heap \<Rightarrow> nat \<times> heap" where
  "select_copy p a h = (let (tmp, h) = alloc (where_rows p (h ! a)) h in alloc (h ! tmp) h)"

definition strict_heap :: "nat \<Rightarrow> heap \<Rightarrow> error + (nat \<times> heap)" where
  "strict_heap df h =
     (let (final_df, h) = alloc (h ! df) h in
      if ''Net_Price_MidClass'' \<notin> set (columns (h ! final_df)) then Inl (KeyError ''Net_Price_MidClass'')
      else if \<not> numeric_col ''Net_Price_MidClass'' (rows (h ! final_df)) then Inl TypeError
      else
        let (final_df, h) = select_copy (\<lambda>r. fle (numv (get r ''Net_Price_MidClass'')) (Fin 25000)) final_df h in
        if ''MGI'' \<notin> set (columns (h ! df)) then Inl (KeyError ''MGI'')
        else if \<not> numeric_col ''MGI'' (rows (h ! df)) then Inl TypeError
        else
          let mgi_threshold = quantile (1 / 2) (col (h ! df) ''MGI'')
          in Inr (select_copy (\<lambda>r. fle mgi_threshold (numv (get r ''MGI''))) final_df h))"

definition relax_heap :: "nat \<Rightarrow> nat \<Rightarrow> heap \<Rightarrow> message list \<times> nat \<times> heap" where
  "relax_heap df final_df h =
     (if length (rows (h ! final_df)) < 10
      then ([Relaxing_Warning (length (rows (h ! final_df)))],
            select_copy (\<lambda>r. fle (numv (get r ''Net_Price_MidClass''))
                                (quantile (3 / 10) (col (h ! df) ''Net_Price_MidClass''))
                            \<and> fle (quantile (8 / 10) (col (h ! df) ''MGI'')) (numv (get r ''MGI'')))
              df h)
      else ([], final_df, h))"

definition rank_heap :: "(float64 list \<Rightarrow> nat list) \<Rightarrow> nat \<Rightarrow> heap \<Rightarrow> error + (nat \<times> heap)" where
  "rank_heap argsort final_df h =
     (if ''Graduation_Rate_4yr'' \<notin> set (columns (h ! final_df)) then Inl (KeyError ''Graduation_Rate_4yr'')
      else if \<not> numeric_col ''Graduation_Rate_4yr'' (rows (h ! final_df)) then Inl TypeError
      else if ''NET_PRICE_RATIO'' \<notin> set (columns (h ! final_df)) then Inl (KeyError ''NET_PRICE_RATIO'')
      else if \<not> numeric_col ''NET_PRICE_RATIO'' (rows (h ! final_df)) then Inl TypeError
      else
        let h = update final_df (set_col ''Composite_Score'' composite_score) h;
            (final_df, h) = alloc (sort_values argsort ''Composite_Score'' (h ! final_df)) h
        in case missing_column report_columns (h ! final_df) of
             Some c \<Rightarrow> Inl (KeyError c)
           | None \<Rightarrow>
               (let (tmp, h) = alloc (project report_columns (h ! final_df)) h;
                    (tmp, h) = alloc (head 20 (h ! tmp)) h
                in Inr (alloc (h ! tmp) h)))"

definition generate_insights_heap ::
  "(float64 list \<Rightarrow> nat list) \<Rightarrow> nat \<Rightarrow> heap \<Rightarrow> error + (message list \<times> nat \<times> heap)" where
  "generate_insights_heap argsort df h =
     on_success (strict_heap df h) (\<lambda>(final_df, h).
       let (ms, final_df, h) = relax_heap df final_df h
       in on_success (rank_heap argsort final_df h) (\<lambda>(final_report, h). Inr (ms, final_report, h)))"

text \<open>\<open>extends h0 h\<close>: the store \<open>h\<close> is \<open>h0\<close> with new objects after it.\<close>

definition extends :: "heap \<Rightarrow> heap \<Rightarrow> bool" where
  "extends h0 h = (length h0 \<le> length h \<and> take (length h0) h = h0)"

section \<open>Well-formed merged tables and example tables\<close>

text \<open>
  The tables on which \<open>generate_insights\<close> raises nothing: the columns it reads are
  there, and the four columns it computes with hold numbers.
\<close>

definition merged_ok :: "frame \<Rightarrow> bool" where
  "merged_ok df =
     (list_all (\<lambda>c. c \<in> set (columns df))
        [''UNITID'', ''INSTNM'', ''CONTROL'', ''Sticker_Price'', ''Avg_Inst_Grant'',
         ''Net_Price_MidClass'', ''MGI'', ''Graduation_Rate_4yr'', ''Admissions_Rate'',
         ''SATVR75'', ''SATMT75'', ''MISSION'', ''NET_PRICE_RATIO'']
      \<and> numeric_col ''Net_Price_MidClass'' (rows df)
      \<and> numeric_col ''MGI'' (rows df)
      \<and> numeric_col ''Graduation_Rate_4yr'' (rows df)
      \<and> numeric_col ''NET_PRICE_RATIO'' (rows df))"

text \<open>A table written down row by row, and the cells of a table read back the same way.\<close>

definition table_of :: "string list \<Rightarrow> cell list list \<Rightarrow> frame" where
  "table_of cs vss = \<lparr>columns = cs, rows = map (zip cs) vss\<rparr>"

definition cells :: "frame \<Rightarrow> cell list list" where
  "cells df = map (\<lambda>r. map (get r) (columns df)) (rows df)"

definition merged_columns :: "string list" where
  "merged_columns =
     [''UNITID'', ''INSTNM'', ''CONTROL'', ''Sticker_Price'', ''Avg_Inst_Grant'',
      ''Net_Price_MidClass'', ''SATVR75'', ''SATMT75'', ''Admissions_Rate'',
      ''Graduation_Rate_4yr'', ''MISSION'', ''MGI'', ''NET_PRICE_RATIO'']"

text \<open>
  A merged row of institution \<open>i\<close> with the given sticker price, grant and net price,
  a graduation rate of one half, and the two ratios as \<open>calculate_metrics\<close> derives them.
\<close>

definition candidate :: "nat \<Rightarrow> rat \<Rightarrow> rat \<Rightarrow> rat \<Rightarrow> cell list" where
  "candidate i sticker grant net =
     [Num (Fin (of_nat i)), Str ''College'', Num (Fin 1), Num (Fin sticker), Num (Fin grant),
      Num (Fin net), Num (Fin 600), Num (Fin 600), Num (Fin (1 / 2)), Num (Fin (1 / 2)),
      Str ''Mission'', Num (fdiv (Fin grant) (Fin sticker)), Num (fdiv (Fin net) (Fin sticker))]"

text \<open>Nine, and ten, institutions that all pass the strict filter; net prices 100, 200, ...\<close>

definition nine_strict :: frame where
  "nine_strict =
     table_of merged_columns (map (\<lambda>i. candidate i 1000 500 (100 * of_nat i)) [1..<10])"

definition ten_strict :: frame where
  "ten_strict =
     table_of merged_columns (map (\<lambda>i. candidate i 1000 500 (100 * of_nat i)) [1..<11])"

text \<open>Two, and seventeen, institutions with the same figures, hence the same score.\<close>

definition two_tied :: frame where
  "two_tied = table_of merged_columns [candidate 1 1000 500 100, candidate 2 1000 500 100]"

definition seventeen_tied :: frame where
  "seventeen_tied = table_of merged_columns (map (\<lambda>i. candidate i 1000 500 100) [1..<18])"

text \<open>
  Twenty institutions, numbered 1 to 20 in the input, with the same sticker price and
  grant and the net prices 300, 100, 400, 100, 500, ...: several of them share a net
  price, hence a score.
\<close>

definition net_prices :: "nat list" where
  "net_prices = [3, 1, 4, 1, 5, 9, 2, 6, 5, 3, 5, 8, 9, 7, 9, 3, 2, 3, 8, 4]"

definition twenty_with_ties :: frame where
  "twenty_with_ties =
     table_of merged_columns
       (map (\<lambda>i. candidate (i + 1) 1000 500 (100 * of_nat (net_prices ! i))) [0..<20])"

text \<open>
  The eight files of a directory, written down from a list of institutions: number,
  control, sticker price (\<open>TUITION2\<close>), average grant (\<open>IGRNT_A\<close>), net price
  (\<open>NPT442\<close>), graduation rate (\<open>GBA4RTT\<close>) and admission rate (\<open>DVADM01\<close>). All
  of them are four-year institutions that offer a bachelor's degree.
\<close>

type_synonym institution = "nat \<times> cell \<times> cell \<times> cell \<times> cell \<times> cell \<times> cell"

definition hd_csv :: "institution list \<Rightarrow> frame" where
  "hd_csv xs =
     table_of [''UNITID'', ''INSTNM'', ''CONTROL'', ''ICLEVEL'', ''HDEGOFR1'']
       (map (\<lambda>(i, control, tuition, grant, net, grad, adm).
               [Num (Fin (of_nat i)), Str ''College'', control, Num (Fin 1), Num (Fin 3)]) xs)"

definition sfa_p1_csv :: "institution list \<Rightarrow> frame" where
  "sfa_p1_csv xs =
     table_of [''UNITID'', ''IGRNT_A'']
       (map (\<lambda>(i, control, tuition, grant, net, grad, adm). [Num (Fin (of_nat i)), grant]) xs)"

definition sfa_p2_csv :: "institution list \<Rightarrow> frame" where
  "sfa_p2_csv xs =
     table_of [''UNITID'', ''NPT442'']
       (map (\<lambda>(i, control, tuition, grant, net, grad, adm). [Num (Fin (of_nat i)), net]) xs)"

definition ic_csv :: "institution list \<Rightarrow> frame" where
  "ic_csv xs =
     table_of [''UNITID'', ''TUITION2'']
       (map (\<lambda>(i, control, tuition, grant, net, grad, adm). [Num (Fin (of_nat i)), tuition]) xs)"

definition adm_sat_csv :: "institution list \<Rightarrow> frame" where
  "adm_sat_csv xs =
     table_of [''UNITID'', ''SATVR75'', ''SATMT75'']
       (map (\<lambda>(i, control, tuition, grant, net, grad, adm).
               [Num (Fin (of_nat i)), Num (Fin 600), Num (Fin 600)]) xs)"

definition adm_rate_csv :: "institution list \<Rightarrow> frame" where
  "adm_rate_csv xs =
     table_of [''UNITID'', ''DVADM01'']
       (map (\<lambda>(i, control, tuition, grant, net, grad, adm). [Num (Fin (of_nat i)), adm]) xs)"

definition gr_csv :: "institution list \<Rightarrow> frame" where
  "gr_csv xs =
     table_of [''UNITID'', ''GBA4RTT'']
       (map (\<lambda>(i, control, tuition, grant, net, grad, adm). [Num (Fin (of_nat i)), grad]) xs)"

definition mission_csv :: "institution list \<Rightarrow> frame" where
  "mission_csv xs =
     table_of [''unitid'', ''mission'']
       (map (\<lambda>(i, control, tuition, grant, net, grad, adm).
               [Num (Fin (of_nat i)), Str ''Mission'']) xs)"

definition csv_files :: "institution list \<Rightarrow> (string \<times> frame) list" where
  "csv_files xs =
     [(''HD2022.csv'', hd_csv xs), (''SFA2122_P1.csv'', sfa_p1_csv xs),
      (''SFA2122_P2.csv'', sfa_p2_csv xs), (''IC2022_AY.csv'', ic_csv xs),
      (''ADM2022.csv'', adm_sat_csv xs), (''DRVADM2022.csv'', adm_rate_csv xs),
      (''DRVGR2022.csv'', gr_csv xs), (''IC2022Mission.csv'', mission_csv xs)]"

definition directory :: "(string \<times> frame) list \<Rightarrow> filesystem" where
  "directory files base_path filename =
     (if base_path = IPEDS_BASE_PATH then map_of files filename else None)"

text \<open>The institution table as the loader hands it to \<open>calculate_metrics\<close>.\<close>

definition hd_filtered :: "institution list \<Rightarrow> frame" where
  "hd_filtered xs = project [''UNITID'', ''INSTNM'', ''CONTROL''] (hd_csv xs)"

definition metrics_of :: "bool \<Rightarrow> institution list \<Rightarrow> error + (message list \<times> frame)" where
  "metrics_of copy_on_write xs =
     calculate_metrics copy_on_write (hd_filtered xs) (sfa_p1_csv xs) (sfa_p2_csv xs) (ic_csv xs)
       (adm_sat_csv xs) (adm_rate_csv xs) (gr_csv xs) (mission_csv xs)"

definition plain :: "nat \<Rightarrow> rat \<Rightarrow> rat \<Rightarrow> rat \<Rightarrow> institution" where
  "plain i tuition grant net =
     (i, Num (Fin 1), Num (Fin tuition), Num (Fin grant), Num (Fin net),
      Num (Fin 50), Num (Fin 50))"

text \<open>
  The end-to-end scenario of the specification: A is institution 1, B is institution 2;
  A has no admission rate.
\<close>

definition scenario :: "institution list" where
  "scenario =
     [(1, Num (Fin 1), Num (Fin 20000), Num (Fin 8000), Num (Fin 18000), Num (Fin 60), Num NaN),
      (2, Num (Fin 1), Num (Fin 50000), Num (Fin 30000), Num (Fin 15000), Num (Fin 90),
       Num (Fin 40))]"

text \<open>Nine ordinary institutions and a tenth whose sticker price is zero.\<close>

definition zero_sticker :: "institution list" where
  "zero_sticker =
     map (\<lambda>i. plain i 1000 500 (100 * of_nat i)) [1..<10] @ [plain 10 0 500 100]"

text \<open>Three institutions; the second has no sticker price, the third no graduation rate.\<close>

definition gaps :: "institution list" where
  "gaps =
     [(1, Num (Fin 1), Num (Fin 1000), Num (Fin 500), Num (Fin 100), Num (Fin 60), Num (Fin 50)),
      (2, Num (Fin 1), Num NaN, Num (Fin 500), Num (Fin 100), Num (Fin 70), Num (Fin 50)),
      (3, Num (Fin 1), Num (Fin 1000), Num (Fin 500), Num (Fin 100), Num NaN, Num (Fin 50)),
      (4, Num (Fin 1), Num (Fin 1000), Num (Fin 500), Num (Fin 100), Num (Fin 90), Num (Fin 50))]"

text \<open>
  Five institutions; the second has no sticker price, the third no graduation rate. Of
  the rates that are left after the drop, 30 is the middle one.
\<close>

definition gaps_odd :: "institution list" where
  "gaps_odd =
     [(1, Num (Fin 1), Num (Fin 1000), Num (Fin 500), Num (Fin 100), Num (Fin 20), Num (Fin 50)),
      (2, Num (Fin 1), Num NaN, Num (Fin 500), Num (Fin 100), Num (Fin 70), Num (Fin 50)),
      (3, Num (Fin 1), Num (Fin 1000), Num (Fin 500), Num (Fin 100), Num NaN, Num (Fin 50)),
      (4, Num (Fin 1), Num (Fin 1000), Num (Fin 500), Num (Fin 100), Num (Fin 40), Num (Fin 50)),
      (5, Num (Fin 1), Num (Fin 1000), Num (Fin 500), Num (Fin 100), Num (Fin 30), Num (Fin 50))]"

text \<open>Two institutions without sticker price: the drop leaves no row.\<close>

definition unpriced :: "institution list" where
  "unpriced =
     [(1, Num (Fin 1), Num NaN, Num (Fin 500), Num (Fin 100), Num (Fin 60), Num (Fin 50)),
      (2, Num (Fin 1), Num NaN, Num (Fin 500), Num (Fin 200), Num (Fin 90), Num (Fin 50))]"

text \<open>
  Two institutions of which neither passes the relaxed selection: the cheap one has the
  low MGI, the generous one the high net price.
\<close>

definition no_match :: "institution list" where
  "no_match = [plain 1 1000 100 100, plain 2 1000 900 200]"

text \<open>
  Raw tables with the special values \<open>-1\<close>, \<open>-2\<close> and \<open>-9\<close>, in the survey tables and
  in the CONTROL column of the institution directory.
\<close>

definition special_values :: "institution list" where
  "special_values =
     [(1, Num (Fin (- 2)), Num (Fin 1000), Num (Fin (- 1)), Num (Fin 100), Num (Fin (- 9)),
       Num (Fin (- 2))),
      (2, Num (Fin 1), Num (Fin 1000), Num (Fin 500), Num (Fin 100), Num (Fin 60), Num (Fin 50))]"

text \<open>
  For a list of institutions: the table after the joins and the drop, the table
  \<open>calculate_metrics\<close> returns under one mode of pandas, and the report of that table
  under the stable sort.
\<close>

definition pool_of :: "institution list \<Rightarrow> frame" where
  "pool_of xs =
     join_sequence (hd_filtered xs) (sfa_p1_csv xs) (sfa_p2_csv xs) (ic_csv xs)
       (adm_sat_csv xs) (adm_rate_csv xs) (gr_csv xs) (mission_csv xs)"

definition merged_of :: "bool \<Rightarrow> institution list \<Rightarrow> frame" where
  "merged_of copy_on_write xs = projr (derive_metrics copy_on_write (pool_of xs))"

definition report_of :: "bool \<Rightarrow> institution list \<Rightarrow> frame" where
  "report_of copy_on_write xs =
     rank_candidates stable_argsort (select_candidates (merged_of copy_on_write xs))"

text \<open>What the loader returns for the files of a list of institutions without special values.\<close>

definition loaded_of :: "institution list \<Rightarrow> tables" where
  "loaded_of xs =
     \<lparr>t_hd = hd_filtered xs, t_sfa_p1 = sfa_p1_csv xs, t_sfa_p2 = sfa_p2_csv xs, t_ic = ic_csv xs,
      t_adm_sat = adm_sat_csv xs, t_adm_rate = adm_rate_csv xs, t_gr = gr_csv xs,
      t_mission = mission_csv xs\<rparr>"

text \<open>
  Tables in which the identifiers do not match up. Of the institutions 1 to 4,
  institution 1 is twice in financial aid part 2 and institution 2 is not in it;
  institution 4 has no sticker price; financial aid part 1 has an institution 5 and
  part 2 an institution 6 that no other table has; admissions scores and graduation
  rates are there for institutions 1 and 3, an admission rate and a mission for
  institution 1 only.
\<close>

definition uneven :: tables where
  "uneven =
     \<lparr>t_hd = table_of [''UNITID'', ''INSTNM'', ''CONTROL'']
               [[Num (Fin 1), Str ''College'', Num (Fin 1)],
                [Num (Fin 2), Str ''College'', Num (Fin 1)],
                [Num (Fin 3), Str ''College'', Num (Fin 1)],
                [Num (Fin 4), Str ''College'', Num (Fin 1)]],
      t_sfa_p1 = table_of [''UNITID'', ''IGRNT_A'']
               [[Num (Fin 1), Num (Fin 500)], [Num (Fin 2), Num (Fin 500)],
                [Num (Fin 3), Num (Fin 500)], [Num (Fin 4), Num (Fin 500)],
                [Num (Fin 5), Num (Fin 500)]],
      t_sfa_p2 = table_of [''UNITID'', ''NPT442'']
               [[Num (Fin 1), Num (Fin 100)], [Num (Fin 1), Num (Fin 150)],
                [Num (Fin 3), Num (Fin 300)], [Num (Fin 4), Num (Fin 400)],
                [Num (Fin 6), Num (Fin 600)]],
      t_ic = table_of [''UNITID'', ''TUITION2'']
               [[Num (Fin 1), Num (Fin 1000)], [Num (Fin 2), Num (Fin 1000)],
                [Num (Fin 3), Num (Fin 1000)], [Num (Fin 4), Num NaN]],
      t_adm_sat = table_of [''UNITID'', ''SATVR75'', ''SATMT75'']
               [[Num (Fin 1), Num (Fin 600), Num (Fin 600)],
                [Num (Fin 3), Num (Fin 650), Num (Fin 650)]],
      t_adm_rate = table_of [''UNITID'', ''DVADM01''] [[Num (Fin 1), Num (Fin 50)]],
      t_gr = table_of [''UNITID'', ''GBA4RTT'']
               [[Num (Fin 1), Num (Fin 60)], [Num (Fin 3), Num (Fin 90)]],
      t_mission = table_of [''unitid'', ''mission''] [[Num (Fin 1), Str ''Mission'']]\<rparr>"

definition uneven_pool :: frame where
  "uneven_pool =
     join_sequence (t_hd uneven) (t_sfa_p1 uneven) (t_sfa_p2 uneven) (t_ic uneven)
       (t_adm_sat uneven) (t_adm_rate uneven) (t_gr uneven) (t_mission uneven)"

definition uneven_merged :: frame where
  "uneven_merged = projr (derive_metrics False uneven_pool)"

text \<open>The files of the scenario, with the grant column missing from financial aid part 1.\<close>

definition without_grant_column :: "(string \<times> frame) list" where
  "without_grant_column =
     map (\<lambda>(name, df). if name = ''SFA2122_P1.csv'' then (name, project [''UNITID''] df)
                         else (name, df))
       (csv_files scenario)"

text \<open>The tables a successful load returns.\<close>

definition tables_of :: "filesystem \<Rightarrow> tables" where
  "tables_of fs = the (snd (projr (load_and_clean_data fs IPEDS_BASE_PATH ESSENTIAL_FILES)))"

text \<open>What a run shows of the file it wrote: the cells of the report, row by row.\<close>

definition report_view :: "outcome \<Rightarrow> cell list list option" where
  "report_view out = map_option (\<lambda>(d, f, report). cells report) (written out)"

section \<open>Properties\<close>

subsection \<open>Tables\<close>

lemma get_put [simp]: "get (put c v r) c' = (if c' = c then v else get r c')"
  by (induction r) auto

lemma get_del [simp]: "get (del c r) c' = (if c' = c then Num NaN else get r c')"
  by (induction r) (auto simp: del_def)

lemma get_selected [simp]:
  "get (map (\<lambda>c. (c, f c)) cs) c' = (if c' \<in> set cs then f c' else Num NaN)"
  by (induction cs) auto

lemma get_fold_put [simp]:
  "get (fold (\<lambda>c. put c (f c)) cs r) c' = (if c' \<in> set cs then f c' else get r c')"
  by (induction cs arbitrary: r) auto

lemma put_get_same: "c \<in> fst ` set r \<Longrightarrow> put c (get r c) r = r"
proof (induction r)
  case Nil
  then show ?case by simp
next
  case (Cons p r)
  then show ?case by (cases p) force
qed

lemma get_present: "\<not> isna (get r c) \<Longrightarrow> c \<in> fst ` set r"
  by (induction r) (auto split: if_splits)

lemma rows_set_col [simp]: "rows (set_col c f df) = map (\<lambda>r. put c (f r) r) (rows df)"
  by (simp add: set_col_def)

lemma rows_project [simp]:
  "rows (project cs df) = map (\<lambda>r. map (\<lambda>c. (c, get r c)) cs) (rows df)"
  by (simp add: project_def)

lemma rows_head [simp]: "rows (head n df) = take n (rows df)"
  by (simp add: head_def)

lemma rows_sort_values [simp]:
  "rows (sort_values argsort c df) = map (\<lambda>i. rows df ! i) (argsort (col df c))"
  by (simp add: sort_values_def)

lemma col_head: "col (head n df) c = take n (col df c)"
  by (simp add: col_def take_map)

lemma col_project: "c \<in> set cs \<Longrightarrow> col (project cs df) c = col df c"
  by (simp add: col_def)

lemma col_set_col_same: "col (set_col c f df) c = map (\<lambda>r. numv (f r)) (rows df)"
  by (simp add: col_def o_def)

lemma col_set_col_other: "c' \<noteq> c \<Longrightarrow> col (set_col c f df) c' = col df c'"
  by (simp add: col_def o_def)

lemma numeric_col_subset: "numeric_col c rs \<Longrightarrow> set rs' \<subseteq> set rs \<Longrightarrow> numeric_col c rs'"
  by (auto simp: numeric_col_def list_all_iff)

subsection \<open>Sorting\<close>

lemma argsort_ok_sort_key:
  assumes "mset js = mset [0..<length ks]"
  shows "mset (sort_key (\<lambda>i. desc_rank (ks ! i)) js) = mset [0..<length ks]
       \<and> descending (map (\<lambda>i. ks ! i) (sort_key (\<lambda>i. desc_rank (ks ! i)) js))"
proof -
  have "sorted (map (\<lambda>i. desc_rank (ks ! i)) (sort_key (\<lambda>i. desc_rank (ks ! i)) js))"
    by (rule sorted_sort_key)
  then show ?thesis
    using assms by (simp add: descending_def o_def)
qed

lemma argsort_ok_stable: "argsort_ok stable_argsort"
  unfolding argsort_ok_def stable_argsort_def
  using argsort_ok_sort_key by blast

text \<open>The stable sort leaves rows of equal key in the order of the input.\<close>

lemma stable_argsort_ties:
  "filter (\<lambda>i. desc_rank (ks ! i) = k) (stable_argsort ks)
     = filter (\<lambda>i. desc_rank (ks ! i) = k) [0..<length ks]"
  unfolding stable_argsort_def by (rule sort_key_stable)

lemma argsort_in_range:
  assumes "argsort_ok argsort" "i \<in> set (argsort ks)"
  shows "i < length ks"
proof -
  have "set (argsort ks) = set [0..<length ks]"
    using assms(1) unfolding argsort_ok_def by (metis set_mset_mset)
  with assms(2) show ?thesis by simp
qed

lemma col_sort_values:
  assumes "argsort_ok argsort"
  shows "col (sort_values argsort c df) c' = map (\<lambda>i. col df c' ! i) (argsort (col df c))"
proof -
  have "\<And>i. i \<in> set (argsort (col df c)) \<Longrightarrow> i < length (rows df)"
    using argsort_in_range [OF assms] by (fastforce simp: col_def)
  then show ?thesis by (simp add: col_def)
qed

lemma descending_take: "descending ks \<Longrightarrow> descending (take n ks)"
  unfolding descending_def by (simp add: take_map [symmetric] sorted_wrt_take)

lemma desc_rank_le: "desc_rank a \<le> desc_rank b \<longleftrightarrow> isnan b \<or> fle b a"
  by (cases a; cases b) (auto simp: less_eq_prod_def)

lemma descending_nth:
  "descending ks \<longleftrightarrow>
     (\<forall>i j. i < j \<and> j < length ks \<longrightarrow> isnan (ks ! j) \<or> fle (ks ! j) (ks ! i))"
  unfolding descending_def sorted_iff_nth_mono_less
  by (auto simp: desc_rank_le)

subsection \<open>The Insight Generator\<close>

lemma tier1_filter:
  "tier1 df =
     filter (\<lambda>r. fle (numv (get r ''Net_Price_MidClass'')) (Fin 25000)
               \<and> fle (quantile (1 / 2) (col df ''MGI'')) (numv (get r ''MGI'')))
       (rows df)"
  by (simp add: tier1_def Let_def conj_commute)

lemma columns_select_candidates [simp]: "columns (select_candidates df) = columns df"
  by (simp add: select_candidates_def Let_def)

lemma rows_select_candidates:
  "rows (select_candidates df) = (if length (tier1 df) < 10 then fallback df else tier1 df)"
  by (simp add: select_candidates_def Let_def)

lemma rows_select_candidates_subset: "set (rows (select_candidates df)) \<subseteq> set (rows df)"
  by (auto simp: rows_select_candidates tier1_def fallback_def Let_def)

text \<open>On a well-formed merged table nothing is raised.\<close>

lemma generate_insights_total:
  assumes "merged_ok df"
  shows "generate_insights argsort df =
           Inr (selection_messages df, rank_candidates argsort (select_candidates df))"
proof -
  have n: "numeric_col ''Graduation_Rate_4yr'' (rows (select_candidates df))"
      "numeric_col ''NET_PRICE_RATIO'' (rows (select_candidates df))"
    using assms numeric_col_subset [OF _ rows_select_candidates_subset]
    by (simp_all add: merged_ok_def)
  have m: "missing_column report_columns
             (set_col ''Composite_Score'' composite_score (select_candidates df)) = None"
    using assms
    by (simp add: missing_column_def find_None_iff report_columns_def set_col_def merged_ok_def)
  show ?thesis
    using assms n m by (simp add: generate_insights_def merged_ok_def Let_def)
qed

lemma generate_insights_Inr:
  assumes "generate_insights argsort df = Inr (ms, report)"
  shows "ms = selection_messages df \<and> report = rank_candidates argsort (select_candidates df)"
  using assms
  by (auto simp: generate_insights_def Let_def split: if_splits option.splits)

lemma col_rank_candidates:
  assumes "argsort_ok argsort" "c \<in> set report_columns"
  shows "col (rank_candidates argsort fd) c =
           take 20 (map (\<lambda>i. col (set_col ''Composite_Score'' composite_score fd) c ! i)
                        (argsort (map (\<lambda>r. numv (composite_score r)) (rows fd))))"
  using assms
  by (simp add: rank_candidates_def Let_def col_head col_project col_sort_values col_set_col_same)

text \<open>Where no two keys are equal, the order is the same for every sort.\<close>

lemma argsort_unique:
  assumes "argsort_ok argsort" and "distinct (map desc_rank ks)"
  shows "argsort ks = stable_argsort ks"
proof -
  let ?f = "\<lambda>i. desc_rank (ks ! i)"
  let ?xs = "argsort ks" and ?ys = "stable_argsort ks"
  have px: "mset ?xs = mset [0..<length ks]" and sx: "sorted (map ?f ?xs)"
    using assms(1) by (simp_all add: argsort_ok_def descending_def o_def)
  have py: "mset ?ys = mset [0..<length ks]" and sy: "sorted (map ?f ?ys)"
    using argsort_ok_stable by (simp_all add: argsort_ok_def descending_def o_def)
  have setx: "set ?xs = {0..<length ks}" and sety: "set ?ys = {0..<length ks}"
    using px py by (metis set_mset_mset set_upt)+
  have dx: "distinct ?xs" and dy: "distinct ?ys"
    using px py by (metis distinct_upt mset_eq_imp_distinct_iff)+
  have inj: "inj_on ?f {0..<length ks}"
  proof (rule inj_onI)
    fix i j assume "i \<in> {0..<length ks}" "j \<in> {0..<length ks}" "?f i = ?f j"
    then have "map desc_rank ks ! i = map desc_rank ks ! j" "i < length (map desc_rank ks)"
      "j < length (map desc_rank ks)" by simp_all
    with assms(2) show "i = j" by (simp add: nth_eq_iff_index_eq del: nth_map)
  qed
  have "map ?f ?xs = map ?f ?ys"
  proof (rule sorted_distinct_set_unique)
    show "sorted (map ?f ?xs)" by (rule sx)
    show "sorted (map ?f ?ys)" by (rule sy)
    show "distinct (map ?f ?xs)" using dx inj setx by (simp add: distinct_map)
    show "distinct (map ?f ?ys)" using dy inj sety by (simp add: distinct_map)
    show "set (map ?f ?xs) = set (map ?f ?ys)" by (simp add: setx sety)
  qed
  moreover have "inj_on ?f (set ?xs \<union> set ?ys)"
    using inj by (simp add: setx sety)
  ultimately show ?thesis by (simp add: inj_on_map_eq_map)
qed

lemma rank_candidates_unique:
  assumes "argsort_ok argsort"
    and "distinct (map (\<lambda>r. desc_rank (numv (composite_score r))) (rows fd))"
  shows "rank_candidates argsort fd = rank_candidates stable_argsort fd"
proof -
  have "distinct (map desc_rank
          (col (set_col ''Composite_Score'' composite_score fd) ''Composite_Score''))"
    using assms(2) by (simp add: col_def o_def)
  then show ?thesis
    using argsort_unique [OF assms(1)]
    by (simp add: rank_candidates_def Let_def sort_values_def)
qed

text \<open>
  C1. When \<open>generate_insights\<close> returns, the report is the ranking of a selection made
  as follows. The strict tier keeps exactly the rows with a net price of at most 25000
  and an MGI of at least the 0.5 quantile of the MGI column of the whole input table.
  If fewer than ten rows pass, and only then, the warning is printed and the selection
  is instead exactly the rows of the whole table with a net price of at most the 0.3
  quantile of the net prices and an MGI of at least the 0.8 quantile of the MGIs.
\<close>

theorem two_tier_filter:
  assumes "generate_insights argsort df = Inr (ms, report)"
  shows "(let strict = filter (\<lambda>r. fle (numv (get r ''Net_Price_MidClass'')) (Fin 25000)
                                   \<and> fle (quantile (1 / 2) (col df ''MGI'')) (numv (get r ''MGI'')))
                         (rows df);
              relaxed = filter (\<lambda>r. fle (numv (get r ''Net_Price_MidClass''))
                                       (quantile (3 / 10) (col df ''Net_Price_MidClass''))
                                   \<and> fle (quantile (8 / 10) (col df ''MGI'')) (numv (get r ''MGI'')))
                          (rows df)
          in report = rank_candidates argsort
                        (df\<lparr>rows := if length strict < 10 then relaxed else strict\<rparr>)
           \<and> ms = (if length strict < 10 then [Relaxing_Warning (length strict)] else []))"
  using generate_insights_Inr [OF assms]
  by (simp add: select_candidates_def selection_messages_def tier1_filter fallback_def Let_def)

theorem two_tier_filter_witness:
  "generate_insights stable_argsort nine_strict
     = Inr ([Relaxing_Warning 9], rank_candidates stable_argsort (select_candidates nine_strict))
   \<and> col (select_candidates nine_strict) ''UNITID'' = [Fin 1, Fin 2, Fin 3]
   \<and> generate_insights stable_argsort ten_strict
     = Inr ([], rank_candidates stable_argsort (select_candidates ten_strict))
   \<and> col (select_candidates ten_strict) ''UNITID''
     = [Fin 1, Fin 2, Fin 3, Fin 4, Fin 5, Fin 6, Fin 7, Fin 8, Fin 9, Fin 10]"
proof -
  have ok9: "merged_ok nine_strict" by code_simp
  have ok10: "merged_ok ten_strict" by code_simp
  have m9: "selection_messages nine_strict = [Relaxing_Warning 9]" by code_simp
  have m10: "selection_messages ten_strict = []" by code_simp
  have g9: "generate_insights stable_argsort nine_strict
     = Inr ([Relaxing_Warning 9], rank_candidates stable_argsort (select_candidates nine_strict))"
    using generate_insights_total [OF ok9] m9 by simp
  have g10: "generate_insights stable_argsort ten_strict
     = Inr ([], rank_candidates stable_argsort (select_candidates ten_strict))"
    using generate_insights_total [OF ok10] m10 by simp
  have c9: "col (select_candidates nine_strict) ''UNITID'' = [Fin 1, Fin 2, Fin 3]"
    by code_simp
  have c10: "col (select_candidates ten_strict) ''UNITID''
     = [Fin 1, Fin 2, Fin 3, Fin 4, Fin 5, Fin 6, Fin 7, Fin 8, Fin 9, Fin 10]"
    by code_simp
  note two_tier_filter [OF g9] two_tier_filter [OF g10]
  then show ?thesis using g9 g10 c9 c10 by simp
qed

text \<open>
  C4, as far as the code goes. For every sort that meets \<open>argsort_ok\<close>, the report has
  at most twenty rows, and of two of its rows the later one has a missing Composite
  Score or a score that is at most the score of the earlier one.
\<close>

theorem report_ranked:
  assumes "argsort_ok argsort"
    and "generate_insights argsort df = Inr (ms, report)"
  shows "length (rows report) \<le> 20
       \<and> (\<forall>i j. i < j \<and> j < length (rows report) \<longrightarrow>
            isnan (col report ''Composite_Score'' ! j)
            \<or> fle (col report ''Composite_Score'' ! j) (col report ''Composite_Score'' ! i))"
proof -
  let ?fd = "select_candidates df"
  let ?ks = "map (\<lambda>r. numv (composite_score r)) (rows ?fd)"
  have rep: "report = rank_candidates argsort ?fd"
    using generate_insights_Inr [OF assms(2)] by simp
  have len: "length (rows report) \<le> 20"
    by (simp add: rep rank_candidates_def Let_def)
  have "col report ''Composite_Score'' = take 20 (map (\<lambda>i. ?ks ! i) (argsort ?ks))"
    using col_rank_candidates [OF assms(1), of "''Composite_Score''" ?fd]
    by (simp add: rep report_columns_def col_set_col_same)
  moreover have "descending (map (\<lambda>i. ?ks ! i) (argsort ?ks))"
    using assms(1) unfolding argsort_ok_def by blast
  ultimately have "descending (col report ''Composite_Score'')"
    by (simp add: descending_take)
  then have "\<forall>i j. i < j \<and> j < length (col report ''Composite_Score'') \<longrightarrow>
            isnan (col report ''Composite_Score'' ! j)
            \<or> fle (col report ''Composite_Score'' ! j) (col report ''Composite_Score'' ! i)"
    by (simp only: descending_nth)
  then show ?thesis using len by (simp add: col_def)
qed

theorem report_ranked_witness:
  "argsort_ok stable_argsort
   \<and> generate_insights stable_argsort ten_strict
       = Inr ([], rank_candidates stable_argsort (select_candidates ten_strict))
   \<and> length (rows (rank_candidates stable_argsort (select_candidates ten_strict))) \<le> 20
   \<and> (0::nat) < 1
   \<and> 1 < length (rows (rank_candidates stable_argsort (select_candidates ten_strict)))
   \<and> col (rank_candidates stable_argsort (select_candidates ten_strict)) ''Composite_Score'' ! 0
       = Fin 10
   \<and> col (rank_candidates stable_argsort (select_candidates ten_strict)) ''Composite_Score'' ! 1
       = Fin 5
   \<and> fle (col (rank_candidates stable_argsort (select_candidates ten_strict)) ''Composite_Score'' ! 1)
         (col (rank_candidates stable_argsort (select_candidates ten_strict)) ''Composite_Score'' ! 0)"
proof -
  have ok10: "merged_ok ten_strict" by code_simp
  have m10: "selection_messages ten_strict = []" by code_simp
  have g10: "generate_insights stable_argsort ten_strict
     = Inr ([], rank_candidates stable_argsort (select_candidates ten_strict))"
    using generate_insights_total [OF ok10] m10 by simp
  have sc: "col (rank_candidates stable_argsort (select_candidates ten_strict)) ''Composite_Score''
     = [Fin 10, Fin 5, Fin (10 / 3), Fin (5 / 2), Fin 2, Fin (5 / 3), Fin (10 / 7),
        Fin (5 / 4), Fin (10 / 9), Fin 1]"
    by code_simp
  have len: "length (rows (rank_candidates stable_argsort (select_candidates ten_strict))) = 10"
    by code_simp
  note report_ranked [OF argsort_ok_stable g10]
  then show ?thesis using argsort_ok_stable g10 sc len by simp
qed

text \<open>
  Seventeen rows of equal score are sorted by insertion alone and stay in the order of
  the input.
\<close>

lemma seventeen_tied_in_input_order:
  "col (rank_candidates quicksort_argsort (select_candidates seventeen_tied)) ''UNITID''
     = map (\<lambda>i. Fin (of_nat i)) [1..<18]"
  by code_simp

text \<open>
  The last part of C4 does not hold. The default sort in its portable form, applied to
  twenty institutions that all pass the strict filter and of which several have the same
  score: the report has the twenty scores in descending order, and it does not have the
  institutions of equal score in the order of the input. That order would be
  2, 4, 7, 17, 1, 10, 16, 18, 3, 20, 5, 9, 11, 8, 14, 12, 19, 6, 13, 15.
\<close>

theorem tie_order_counterexample:
  "col twenty_with_ties ''UNITID'' = map (\<lambda>i. Fin (of_nat i)) [1..<21]
   \<and> nargsort (map (\<lambda>r. numv (composite_score r)) (rows (select_candidates twenty_with_ties)))
       \<noteq> None
   \<and> generate_insights quicksort_argsort twenty_with_ties
       = Inr ([], rank_candidates quicksort_argsort (select_candidates twenty_with_ties))
   \<and> col (rank_candidates quicksort_argsort (select_candidates twenty_with_ties)) ''Composite_Score''
       = map (\<lambda>n. Fin (10 / of_nat n)) [1, 1, 2, 2, 3, 3, 3, 3, 4, 4, 5, 5, 5, 6, 7, 8, 8, 9, 9, 9]
   \<and> sort_key asc_rank
         (col (rank_candidates quicksort_argsort (select_candidates twenty_with_ties)) ''UNITID'')
       = map (\<lambda>i. Fin (of_nat i)) [1..<21]
   \<and> col (rank_candidates stable_argsort (select_candidates twenty_with_ties)) ''UNITID''
       = map (\<lambda>i. Fin (of_nat i))
           [2, 4, 7, 17, 1, 10, 16, 18, 3, 20, 5, 9, 11, 8, 14, 12, 19, 6, 13, 15]
   \<and> col (rank_candidates quicksort_argsort (select_candidates twenty_with_ties)) ''UNITID''
       \<noteq> map (\<lambda>i. Fin (of_nat i))
           [2, 4, 7, 17, 1, 10, 16, 18, 3, 20, 5, 9, 11, 8, 14, 12, 19, 6, 13, 15]"
proof -
  have ok: "merged_ok twenty_with_ties" by code_simp
  have m: "selection_messages twenty_with_ties = []" by code_simp
  have g: "generate_insights quicksort_argsort twenty_with_ties
     = Inr ([], rank_candidates quicksort_argsort (select_candidates twenty_with_ties))"
    using generate_insights_total [OF ok] m by simp
  have a: "col twenty_with_ties ''UNITID'' = map (\<lambda>i. Fin (of_nat i)) [1..<21]"
    by code_simp
  have n: "nargsort (map (\<lambda>r. numv (composite_score r)) (rows (select_candidates twenty_with_ties)))
       \<noteq> None"
    by code_simp
  have b: "col (rank_candidates quicksort_argsort (select_candidates twenty_with_ties))
             ''Composite_Score''
       = map (\<lambda>n. Fin (10 / of_nat n)) [1, 1, 2, 2, 3, 3, 3, 3, 4, 4, 5, 5, 5, 6, 7, 8, 8, 9, 9, 9]"
    by code_simp
  have c: "sort_key asc_rank
         (col (rank_candidates quicksort_argsort (select_candidates twenty_with_ties)) ''UNITID'')
       = map (\<lambda>i. Fin (of_nat i)) [1..<21]"
    by code_simp
  have d: "col (rank_candidates stable_argsort (select_candidates twenty_with_ties)) ''UNITID''
       = map (\<lambda>i. Fin (of_nat i))
           [2, 4, 7, 17, 1, 10, 16, 18, 3, 20, 5, 9, 11, 8, 14, 12, 19, 6, 13, 15]"
    by code_simp
  have e: "col (rank_candidates quicksort_argsort (select_candidates twenty_with_ties)) ''UNITID''
       \<noteq> map (\<lambda>i. Fin (of_nat i))
           [2, 4, 7, 17, 1, 10, 16, 18, 3, 20, 5, 9, 11, 8, 14, 12, 19, 6, 13, 15]"
    by code_simp
  show ?thesis using g a n b c d e by simp
qed

subsection \<open>The Metric Calculator\<close>

lemma columns_set_col_mem: "c \<in> set (columns df) \<Longrightarrow> c \<in> set (columns (set_col c' f df))"
  by (simp add: set_col_def)

lemma columns_rename_mem:
  "c \<in> set (columns df) \<Longrightarrow> c \<noteq> old \<Longrightarrow> c \<in> set (columns (rename old new df))"
  by (auto simp: rename_def)

lemma rows_rename:
  "old \<in> set (columns df) \<Longrightarrow> rows (rename old new df) = map (rename_row old new) (rows df)"
  by (simp add: rename_def)

lemma get_rename_row [simp]:
  "get (rename_row old new r) c = (if c = new then get r old else if c = old then Num NaN else get r c)"
  by (simp add: rename_row_def)

lemma rows_dropna [simp]:
  "rows (dropna cs df) = filter (\<lambda>r. list_all (\<lambda>c. \<not> isna (get r c)) cs) (rows df)"
  by (simp add: dropna_def)

lemma columns_dropna [simp]: "columns (dropna cs df) = columns df"
  by (simp add: dropna_def)

lemma columns_merge_left [simp]:
  "columns (merge_left key l r) = columns l @ other_columns key r"
  by (simp add: merge_left_def Let_def)

lemma columns_merge_inner [simp]:
  "columns (merge_inner key l r) = columns l @ other_columns key r"
  by (simp add: merge_inner_def Let_def)

lemma columns_project [simp]: "columns (project cs df) = cs"
  by (simp add: project_def)

lemma rows_rename_for_readability:
  assumes "has_old_columns m"
  shows "rows (rename_for_readability m) =
     map (\<lambda>r. rename_row ''mission'' ''MISSION''
              (rename_row ''DVADM01'' ''Admissions_Rate''
                (rename_row ''GBA4RTT'' ''Graduation_Rate_4yr''
                  (rename_row ''NPT442'' ''Net_Price_MidClass''
                    (rename_row ''IGRNT_A'' ''Avg_Inst_Grant''
                      (rename_row ''TUITION2'' ''Sticker_Price'' r)))))) (rows m)"
  using assms unfolding rename_for_readability_def has_old_columns_def
  by (simp add: rows_rename columns_rename_mem o_def)

lemma has_old_columns_set_col: "has_old_columns m \<Longrightarrow> has_old_columns (set_col c f m)"
  by (simp add: has_old_columns_def set_col_def)

lemma has_old_columns_fill:
  "has_old_columns m \<Longrightarrow> has_old_columns (fill_graduation_rate copy_on_write m)"
  by (simp add: fill_graduation_rate_def Let_def has_old_columns_set_col)

lemma derive_metrics_rows:
  assumes "derive_metrics copy_on_write m = Inr df" and "has_old_columns m"
  shows "rows df = map (derived_row copy_on_write (median (col m ''GBA4RTT''))) (rows m)"
proof -
  let ?m1 = "set_col ''MGI'' (\<lambda>r. Num (fdiv (numv (get r ''IGRNT_A'')) (numv (get r ''TUITION2'')))) m"
  let ?m2 = "fill_graduation_rate copy_on_write ?m1"
  let ?m3 = "set_col ''NET_PRICE_RATIO'' (\<lambda>r. Num (fdiv (numv (get r ''NPT442'')) (numv (get r ''TUITION2'')))) ?m2"
  let ?m4 = "rename_for_readability ?m3"
  let ?m5 = "set_col ''Graduation_Rate_4yr'' (\<lambda>r. Num (fdiv (numv (get r ''Graduation_Rate_4yr'')) (Fin 100))) ?m4"
  let ?m6 = "set_col ''Admissions_Rate'' (\<lambda>r. Num (fdiv (numv (get r ''Admissions_Rate'')) (Fin 100))) ?m5"
  have df: "df = ?m6"
    using assms(1) by (simp add: derive_metrics_def Let_def split: if_splits)
  have h3: "has_old_columns ?m3"
    by (intro has_old_columns_set_col has_old_columns_fill assms(2))
  have med: "median (col ?m1 ''GBA4RTT'') = median (col m ''GBA4RTT'')"
    by (simp add: col_set_col_other)
  have r2: "rows ?m2 = map (\<lambda>r. if copy_on_write then r else put ''GBA4RTT''
        (if isna (get r ''GBA4RTT'') then Num (median (col m ''GBA4RTT'')) else get r ''GBA4RTT'') r)
        (rows ?m1)"
    by (simp add: fill_graduation_rate_def Let_def med del: rows_set_col) (simp add: o_def)
  show ?thesis
    unfolding df
    by (simp add: rows_rename_for_readability [OF h3] r2 o_def derived_row_def Let_def)
qed

text \<open>Where no graduation rate is missing, the two modes of pandas give the same table.\<close>

lemma fill_graduation_rate_no_gap:
  assumes "''GBA4RTT'' \<in> set (columns m)"
    and "list_all (\<lambda>r. \<not> isna (get r ''GBA4RTT'')) (rows m)"
  shows "fill_graduation_rate True m = fill_graduation_rate False m"
proof -
  have "map (\<lambda>r. put ''GBA4RTT'' (if isna (get r ''GBA4RTT'') then Num x else get r ''GBA4RTT'') r)
          (rows m) = rows m" for x
    by (rule map_idI) (use assms(2) in \<open>auto simp: list_all_iff put_get_same get_present\<close>)
  then show ?thesis
    using assms(1) by (simp add: fill_graduation_rate_def set_col_def Let_def)
qed

lemma derive_metrics_no_gap:
  assumes "''GBA4RTT'' \<in> set (columns m)"
    and "list_all (\<lambda>r. \<not> isna (get r ''GBA4RTT'')) (rows m)"
  shows "derive_metrics True m = derive_metrics False m"
proof -
  let ?m1 = "set_col ''MGI'' (\<lambda>r. Num (fdiv (numv (get r ''IGRNT_A'')) (numv (get r ''TUITION2'')))) m"
  have "fill_graduation_rate True ?m1 = fill_graduation_rate False ?m1"
    by (rule fill_graduation_rate_no_gap)
       (use assms in \<open>auto simp: set_col_def list_all_iff\<close>)
  then show ?thesis
    by (simp add: derive_metrics_def Let_def)
qed

lemma derive_metrics_numeric:
  assumes "derive_metrics copy_on_write m = Inr df"
  shows "numeric_col ''GBA4RTT'' (rows m)"
  using assms
  by (simp add: derive_metrics_def Let_def numeric_col_def list_all_iff split: if_splits)

lemma select_Inr: "select cs df = Inr x \<Longrightarrow> x = project cs df"
  by (simp add: select_def split: option.splits)

lemma calculate_metrics_success:
  assumes "calculate_metrics copy_on_write hd_df sfa_p1 sfa_p2 ic adm_sat adm_rate gr mission
             = Inr ([], df)"
  shows "derive_metrics copy_on_write
           (join_sequence hd_df sfa_p1 sfa_p2 ic adm_sat adm_rate gr mission) = Inr df"
  using assms
  unfolding calculate_metrics_def on_success_def except_KeyError_def join_sequence_def merge_all_def
  by (auto simp: Let_def dropna_def split: sum.splits error.splits if_splits dest!: select_Inr)

lemma has_old_columns_join_sequence:
  "has_old_columns (join_sequence hd_df sfa_p1 sfa_p2 ic adm_sat adm_rate gr mission)"
  by (simp add: has_old_columns_def join_sequence_def Let_def other_columns_def rename_def)

subsection \<open>The store\<close>

lemma extends_refl: "extends h h" by (simp add: extends_def)

lemma extends_nth: "extends h0 h \<Longrightarrow> a < length h0 \<Longrightarrow> h ! a = h0 ! a"
  unfolding extends_def by (metis nth_take)

lemma alloc_extends:
  assumes "extends h0 h" "alloc df h = (a, h')"
  shows "extends h0 h' \<and> length h0 \<le> a \<and> a < length h' \<and> h' ! a = df"
  using assms by (auto simp: extends_def alloc_def)

lemma update_extends:
  assumes "extends h0 h" "length h0 \<le> a" "a < length h"
  shows "extends h0 (update a f h) \<and> update a f h ! a = f (h ! a) \<and> length (update a f h) = length h"
  using assms by (auto simp: extends_def update_def)

lemma select_copy_extends:
  assumes "extends h0 h" "select_copy p b h = (a, h')" "b < length h"
  shows "extends h0 h' \<and> length h0 \<le> a \<and> a < length h' \<and> h' ! a = where_rows p (h ! b)"
  using assms
  by (auto simp: extends_def alloc_def select_copy_def Let_def nth_append)

lemma strict_heap_extends:
  assumes "strict_heap df h = Inr (a, h')" "df < length h"
  shows "extends h h' \<and> length h \<le> a \<and> a < length h' \<and> h' ! a = (h ! df)\<lparr>rows := tier1 (h ! df)\<rparr>
       \<and> ''Net_Price_MidClass'' \<in> set (columns (h ! df)) \<and> numeric_col ''Net_Price_MidClass'' (rows (h ! df))
       \<and> ''MGI'' \<in> set (columns (h ! df)) \<and> numeric_col ''MGI'' (rows (h ! df))"
  using assms
  by (auto simp: strict_heap_def extends_def alloc_def select_copy_def Let_def nth_append
        tier1_def where_rows_def split: if_splits)

lemma relax_heap_extends:
  assumes "relax_heap df b h = (ms, a, h')" "extends h0 h" "df < length h0" "length h0 \<le> b" "b < length h"
    "h ! b = (h0 ! df)\<lparr>rows := tier1 (h0 ! df)\<rparr>"
  shows "extends h0 h' \<and> length h0 \<le> a \<and> a < length h' \<and> h' ! a = select_candidates (h0 ! df)
       \<and> ms = selection_messages (h0 ! df)"
proof (cases "length (tier1 (h0 ! df)) < 10")
  case True
  then have sc: "select_copy (\<lambda>r. fle (numv (get r ''Net_Price_MidClass''))
                                (quantile (3 / 10) (col (h ! df) ''Net_Price_MidClass''))
                            \<and> fle (quantile (8 / 10) (col (h ! df) ''MGI'')) (numv (get r ''MGI'')))
              df h = (a, h')" and ms: "ms = [Relaxing_Warning (length (tier1 (h0 ! df)))]"
    using assms(1,6) by (simp_all add: relax_heap_def)
  have d: "df < length h" using assms(2,3) by (simp add: extends_def)
  have e: "h ! df = h0 ! df" using extends_nth [OF assms(2,3)] .
  show ?thesis
    using select_copy_extends [OF assms(2) sc d] True ms
    by (simp add: e select_candidates_def selection_messages_def fallback_def where_rows_def Let_def)
next
  case False
  then show ?thesis
    using assms by (simp add: relax_heap_def select_candidates_def selection_messages_def Let_def)
qed

lemma rank_heap_extends:
  assumes "rank_heap argsort b h = Inr (a, h')" "extends h0 h" "length h0 \<le> b" "b < length h"
  shows "extends h0 h' \<and> a < length h' \<and> h' ! a = rank_candidates argsort (h ! b)"
  using assms
  by (auto simp: rank_heap_def extends_def alloc_def update_def Let_def nth_append rank_candidates_def
        split: if_splits option.splits)

lemma rank_heap_guards:
  assumes "rank_heap argsort b h = Inr (a, h')" "b < length h"
  shows "''Graduation_Rate_4yr'' \<in> set (columns (h ! b))
       \<and> numeric_col ''Graduation_Rate_4yr'' (rows (h ! b))
       \<and> ''NET_PRICE_RATIO'' \<in> set (columns (h ! b))
       \<and> numeric_col ''NET_PRICE_RATIO'' (rows (h ! b))
       \<and> missing_column report_columns (set_col ''Composite_Score'' composite_score (h ! b)) = None"
  using assms
  by (auto simp: rank_heap_def alloc_def update_def Let_def nth_append missing_column_def
        sort_values_def split: if_splits option.splits)

text \<open>
  C10. When \<open>generate_insights\<close> returns, every table that was in the store before the
  call, the input table among them, is what it was: same columns, same rows, same
  cells. The table returned is the report of the model without store.
\<close>

theorem input_table_untouched:
  assumes "generate_insights_heap argsort df h = Inr (ms, final_report, h')" and "df < length h"
  shows "take (length h) h' = h \<and> h' ! df = h ! df
       \<and> generate_insights argsort (h ! df) = Inr (ms, h' ! final_report)"
proof -
  from assms(1) obtain a1 h1 where s: "strict_heap df h = Inr (a1, h1)"
    by (auto simp: generate_insights_heap_def on_success_def split: sum.splits)
  obtain ms2 a2 h2 where r: "relax_heap df a1 h1 = (ms2, a2, h2)"
    by (metis prod_cases3)
  from assms(1) s r have k: "rank_heap argsort a2 h2 = Inr (final_report, h')" and m: "ms = ms2"
    by (auto simp: generate_insights_heap_def on_success_def split: sum.splits)
  note s' = strict_heap_extends [OF s assms(2)]
  from s' have r': "extends h h2 \<and> length h \<le> a2 \<and> a2 < length h2
      \<and> h2 ! a2 = select_candidates (h ! df) \<and> ms2 = selection_messages (h ! df)"
    using relax_heap_extends [OF r, of h] assms(2) by simp
  from r' have k': "extends h h' \<and> final_report < length h'
      \<and> h' ! final_report = rank_candidates argsort (h2 ! a2)"
    using rank_heap_extends [OF k, of h] by simp
  from r' have g: "''Graduation_Rate_4yr'' \<in> set (columns (h2 ! a2))
       \<and> numeric_col ''Graduation_Rate_4yr'' (rows (h2 ! a2))
       \<and> ''NET_PRICE_RATIO'' \<in> set (columns (h2 ! a2))
       \<and> numeric_col ''NET_PRICE_RATIO'' (rows (h2 ! a2))
       \<and> missing_column report_columns (set_col ''Composite_Score'' composite_score (h2 ! a2)) = None"
    using rank_heap_guards [OF k] by simp
  have "generate_insights argsort (h ! df) = Inr (ms, h' ! final_report)"
    using s' r' k' g m by (simp add: generate_insights_def Let_def)
  moreover have "take (length h) h' = h"
    using k' by (simp add: extends_def)
  moreover have "h' ! df = h ! df"
    using k' extends_nth [OF _ assms(2)] by blast
  ultimately show ?thesis by simp
qed

theorem input_table_untouched_witness:
  "(0::nat) < length [two_tied]
   \<and> generate_insights_heap stable_argsort 0 [two_tied]
       = Inr (projr (generate_insights_heap stable_argsort 0 [two_tied]))
   \<and> take (length [two_tied])
         (snd (snd (projr (generate_insights_heap stable_argsort 0 [two_tied])))) = [two_tied]
   \<and> snd (snd (projr (generate_insights_heap stable_argsort 0 [two_tied]))) ! 0 = two_tied
   \<and> length (snd (snd (projr (generate_insights_heap stable_argsort 0 [two_tied])))) = 12"
proof -
  have "case generate_insights_heap stable_argsort 0 [two_tied] of
          Inr (ms, a, h') \<Rightarrow> length h' = 12 | Inl e \<Rightarrow> False"
    by code_simp
  then obtain ms a h' where
    run: "generate_insights_heap stable_argsort 0 [two_tied] = Inr (ms, a, h')"
    and len: "length h' = 12"
    by (auto split: sum.splits)
  have "(0::nat) < length [two_tied]" by simp
  note input_table_untouched [OF run this]
  then show ?thesis using run len by simp
qed

subsection \<open>Joins, derived columns and the report\<close>

lemma get_paired [simp]:
  "get (paired cs l r) c = (if c \<in> set cs then get r c else get l c)"
  by (simp add: paired_def)

lemma get_unpaired [simp]:
  "get (unpaired cs l) c = (if c \<in> set cs then Num NaN else get l c)"
  by (simp add: unpaired_def)

text \<open>The inner join holds exactly the pairs of a left and a right row of equal key.\<close>

lemma merge_inner_pairs:
  "x \<in> set (rows (merge_inner key l r)) \<longleftrightarrow>
     (\<exists>a \<in> set (rows l). \<exists>b \<in> set (rows r).
        get b key = get a key \<and> x = paired (other_columns key r) a b)"
  by (auto simp: merge_inner_def Let_def partners_def)

text \<open>The left join keeps every left row, with its own cells.\<close>

lemma merge_left_keeps:
  assumes "a \<in> set (rows l)"
  shows "\<exists>x \<in> set (rows (merge_left key l r)).
           \<forall>c. c \<notin> set (other_columns key r) \<longrightarrow> get x c = get a c"
proof (cases "partners key a r = []")
  case True
  then have "unpaired (other_columns key r) a \<in> set (rows (merge_left key l r))"
    using assms by (force simp: merge_left_def Let_def)
  then show ?thesis by (rule rev_bexI) simp
next
  case False
  then obtain b where "b \<in> set (partners key a r)"
    by (cases "partners key a r") auto
  then have "paired (other_columns key r) a b \<in> set (rows (merge_left key l r))"
    using assms False by (force simp: merge_left_def Let_def)
  then show ?thesis by (rule rev_bexI) simp
qed

lemma get_derived_row_unitid: "get (derived_row copy_on_write med r) ''UNITID'' = get r ''UNITID''"
  by (simp add: derived_row_def Let_def)

lemma get_derived_row_financials:
  "get (derived_row copy_on_write med r) ''Sticker_Price'' = get r ''TUITION2''"
  "get (derived_row copy_on_write med r) ''Avg_Inst_Grant'' = get r ''IGRNT_A''"
  "get (derived_row copy_on_write med r) ''Net_Price_MidClass'' = get r ''NPT442''"
  by (simp_all add: derived_row_def Let_def)

lemma get_derived_row_mgi:
  "get (derived_row copy_on_write med r) ''MGI''
     = Num (fdiv (numv (get r ''IGRNT_A'')) (numv (get r ''TUITION2'')))"
  by (simp add: derived_row_def Let_def)

lemma get_derived_row_grad:
  "get (derived_row copy_on_write med r) ''Graduation_Rate_4yr'' =
     Num (fdiv (numv (if isna (get r ''GBA4RTT'') \<and> \<not> copy_on_write then Num med
                      else get r ''GBA4RTT'')) (Fin 100))"
  by (simp add: derived_row_def Let_def)

lemma rows_join_sequence_kept:
  assumes "r \<in> set (rows (join_sequence hd_df sfa_p1 sfa_p2 ic adm_sat adm_rate gr mission))"
  shows "\<not> isna (get r ''TUITION2'') \<and> \<not> isna (get r ''IGRNT_A'') \<and> \<not> isna (get r ''NPT442'')"
  using assms by (simp add: join_sequence_def Let_def)

lemma concat_map_if: "concat (map (\<lambda>b. if P b then [f b] else []) ys) = map f (filter P ys)"
  by (induction ys) auto

text \<open>
  The inner join written as the list of pairs, and the left join as that list with the
  left rows that have no partner.
\<close>

lemma merge_inner_pairs_in_order:
  "merge_inner key left right =
     \<lparr>columns = columns left @ filter (\<lambda>c. c \<noteq> key) (columns right),
      rows = [fold (\<lambda>c. put c (get b c)) (filter (\<lambda>c. c \<noteq> key) (columns right)) a.
              a \<leftarrow> rows left, b \<leftarrow> rows right, get b key = get a key]\<rparr>"
  by (simp add: merge_inner_def Let_def partners_def other_columns_def concat_map_if paired_def
        cong: map_cong)

lemma merge_left_pairs_in_order:
  "merge_left key left right =
     \<lparr>columns = columns left @ filter (\<lambda>c. c \<noteq> key) (columns right),
      rows = concat (map (\<lambda>a.
               if \<exists>b \<in> set (rows right). get b key = get a key
               then [fold (\<lambda>c. put c (get b c)) (filter (\<lambda>c. c \<noteq> key) (columns right)) a.
                     b \<leftarrow> rows right, get b key = get a key]
               else [fold (\<lambda>c. put c (Num NaN)) (filter (\<lambda>c. c \<noteq> key) (columns right)) a])
             (rows left))\<rparr>"
proof -
  have "(if partners key a right = [] then [unpaired (other_columns key right) a]
         else map (paired (other_columns key right) a) (partners key a right))
      = (if \<exists>b \<in> set (rows right). get b key = get a key
         then [fold (\<lambda>c. put c (get b c)) (filter (\<lambda>c. c \<noteq> key) (columns right)) a.
               b \<leftarrow> rows right, get b key = get a key]
         else [fold (\<lambda>c. put c (Num NaN)) (filter (\<lambda>c. c \<noteq> key) (columns right)) a])" for a
    by (auto simp: partners_def other_columns_def concat_map_if paired_def unpaired_def
          filter_empty_conv cong: map_cong)
  then show ?thesis
    by (simp add: merge_left_def Let_def) (simp add: other_columns_def)
qed

text \<open>
  C7. When \<open>calculate_metrics\<close> returns its table without having reported an error,
  the metrics were derived from the table \<open>kept\<close> that the join sequence gives. An
  inner join has one row for every pair of a left and a right row with the same
  \<open>UNITID\<close>, in the order of the left table and then of the right table, with the
  cells of both. A left join has these rows and, for every left row without partner,
  that row with NaN in the columns of the right table. Financial aid part 1 is
  inner-joined with part 2 and admissions scores are left-joined with admissions
  rates; the institutions are left-joined in turn with tuition, financial aid,
  admissions, outcomes and mission; every row without sticker price, average grant or
  net price is dropped. The result has one row for each row of \<open>kept\<close>, in the same
  order, with the same identifier, sticker price, average grant and net price.
\<close>

theorem join_sequence_then_drop:
  assumes "calculate_metrics copy_on_write hd_df sfa_p1 sfa_p2 ic adm_sat adm_rate gr mission
             = Inr ([], df)"
  shows "(let other = (\<lambda>right. filter (\<lambda>c. c \<noteq> ''UNITID'') (columns right));
              both = (\<lambda>right a b. fold (\<lambda>c. put c (get b c)) (other right) a);
              alone = (\<lambda>right a. fold (\<lambda>c. put c (Num NaN)) (other right) a);
              inner_join = (\<lambda>left right.
                 \<lparr>columns = columns left @ other right,
                  rows = [both right a b.
                          a \<leftarrow> rows left, b \<leftarrow> rows right, get b ''UNITID'' = get a ''UNITID'']\<rparr>);
              left_join = (\<lambda>left right.
                 \<lparr>columns = columns left @ other right,
                  rows = concat (map (\<lambda>a.
                           if \<exists>b \<in> set (rows right). get b ''UNITID'' = get a ''UNITID''
                           then [both right a b.
                                 b \<leftarrow> rows right, get b ''UNITID'' = get a ''UNITID'']
                           else [alone right a])
                         (rows left))\<rparr>);
              aid = inner_join (project [''UNITID'', ''IGRNT_A''] sfa_p1)
                      (project [''UNITID'', ''NPT442''] sfa_p2);
              admissions = left_join (project [''UNITID'', ''SATVR75'', ''SATMT75''] adm_sat)
                             (project [''UNITID'', ''DVADM01''] adm_rate);
              joined = left_join
                         (left_join
                           (left_join
                             (left_join
                               (left_join hd_df (project [''UNITID'', ''TUITION2''] ic))
                               aid)
                             admissions)
                           (project [''UNITID'', ''GBA4RTT''] gr))
                         (rename ''unitid'' ''UNITID'' (project [''unitid'', ''mission''] mission));
              kept = joined\<lparr>rows := filter (\<lambda>r. \<not> isna (get r ''TUITION2'')
                                                  \<and> \<not> isna (get r ''IGRNT_A'')
                                                  \<and> \<not> isna (get r ''NPT442'')) (rows joined)\<rparr>
          in derive_metrics copy_on_write kept = Inr df
           \<and> map (\<lambda>r. get r ''UNITID'') (rows df) = map (\<lambda>r. get r ''UNITID'') (rows kept)
           \<and> map (\<lambda>r. get r ''Sticker_Price'') (rows df) = map (\<lambda>r. get r ''TUITION2'') (rows kept)
           \<and> map (\<lambda>r. get r ''Avg_Inst_Grant'') (rows df) = map (\<lambda>r. get r ''IGRNT_A'') (rows kept)
           \<and> map (\<lambda>r. get r ''Net_Price_MidClass'') (rows df)
               = map (\<lambda>r. get r ''NPT442'') (rows kept))"
proof -
  let ?pool = "join_sequence hd_df sfa_p1 sfa_p2 ic adm_sat adm_rate gr mission"
  have d: "derive_metrics copy_on_write ?pool = Inr df"
    using calculate_metrics_success [OF assms] .
  have r: "rows df = map (derived_row copy_on_write (median (col ?pool ''GBA4RTT''))) (rows ?pool)"
    using derive_metrics_rows [OF d has_old_columns_join_sequence] .
  have "derive_metrics copy_on_write ?pool = Inr df
      \<and> map (\<lambda>r. get r ''UNITID'') (rows df) = map (\<lambda>r. get r ''UNITID'') (rows ?pool)
      \<and> map (\<lambda>r. get r ''Sticker_Price'') (rows df) = map (\<lambda>r. get r ''TUITION2'') (rows ?pool)
      \<and> map (\<lambda>r. get r ''Avg_Inst_Grant'') (rows df) = map (\<lambda>r. get r ''IGRNT_A'') (rows ?pool)
      \<and> map (\<lambda>r. get r ''Net_Price_MidClass'') (rows df)
          = map (\<lambda>r. get r ''NPT442'') (rows ?pool)"
    using d by (simp add: r o_def get_derived_row_unitid get_derived_row_financials)
  then show ?thesis
    unfolding join_sequence_def Let_def merge_inner_pairs_in_order merge_left_pairs_in_order .
qed

text \<open>
  C8. In the table \<open>calculate_metrics\<close> returns, the graduation rate of a row is its
  rate in the table left by the drop, divided by 100. Where that rate is missing, it
  is, without copy-on-write, the median of the rates of that table divided by 100: the
  middle one of the rates that are not missing, in ascending order, or the mean of the
  two middle ones. With copy-on-write it stays missing. The MGI is computed from the
  same rows.
\<close>

theorem graduation_rate_gap_fill:
  assumes "calculate_metrics copy_on_write hd_df sfa_p1 sfa_p2 ic adm_sat adm_rate gr mission
             = Inr ([], df)"
  shows "(let pool = join_sequence hd_df sfa_p1 sfa_p2 ic adm_sat adm_rate gr mission;
              rates = col pool ''GBA4RTT'';
              present = sort_key asc_rank (filter (\<lambda>g. \<not> isnan g) rates);
              n = length present;
              middle = (if n = 0 then NaN
                        else if odd n then present ! (n div 2)
                        else fdiv (fadd (present ! (n div 2 - 1)) (present ! (n div 2))) (Fin 2))
          in col df ''Graduation_Rate_4yr''
               = map (\<lambda>g. fdiv (if isnan g \<and> \<not> copy_on_write then middle else g) (Fin 100)) rates
           \<and> col df ''MGI''
               = map (\<lambda>r. fdiv (numv (get r ''IGRNT_A'')) (numv (get r ''TUITION2''))) (rows pool))"
proof -
  let ?pool = "join_sequence hd_df sfa_p1 sfa_p2 ic adm_sat adm_rate gr mission"
  let ?med = "median (col ?pool ''GBA4RTT'')"
  have d: "derive_metrics copy_on_write ?pool = Inr df"
    using calculate_metrics_success [OF assms] .
  have r: "rows df = map (derived_row copy_on_write ?med) (rows ?pool)"
    using derive_metrics_rows [OF d has_old_columns_join_sequence] .
  have n: "\<And>r. r \<in> set (rows ?pool) \<Longrightarrow> is_num (get r ''GBA4RTT'')"
    using derive_metrics_numeric [OF d] by (simp add: numeric_col_def list_all_iff)
  have "map (\<lambda>r. numv (get (derived_row copy_on_write ?med r) ''Graduation_Rate_4yr'')) (rows ?pool)
          = map (\<lambda>r. fdiv (if isnan (numv (get r ''GBA4RTT'')) \<and> \<not> copy_on_write then ?med
                            else numv (get r ''GBA4RTT'')) (Fin 100)) (rows ?pool)"
  proof (rule map_cong [OF refl])
    fix r assume "r \<in> set (rows ?pool)"
    from n [OF this]
    show "numv (get (derived_row copy_on_write ?med r) ''Graduation_Rate_4yr'')
            = fdiv (if isnan (numv (get r ''GBA4RTT'')) \<and> \<not> copy_on_write then ?med
                    else numv (get r ''GBA4RTT'')) (Fin 100)"
      by (cases "get r ''GBA4RTT''") (simp_all add: get_derived_row_grad)
  qed
  then have "col df ''Graduation_Rate_4yr''
          = map (\<lambda>g. fdiv (if isnan g \<and> \<not> copy_on_write then ?med else g) (Fin 100))
              (col ?pool ''GBA4RTT'')"
    by (simp add: col_def r o_def)
  moreover have "col df ''MGI''
          = map (\<lambda>r. fdiv (numv (get r ''IGRNT_A'')) (numv (get r ''TUITION2''))) (rows ?pool)"
    by (simp add: col_def r o_def get_derived_row_mgi)
  ultimately show ?thesis by (simp only: Let_def median_def)
qed

lemma rows_rank_candidates_from:
  assumes "argsort_ok argsort" and "r \<in> set (rows (rank_candidates argsort fd))"
  shows "\<exists>r' \<in> set (rows fd).
           \<forall>c. c \<in> set report_columns \<and> c \<noteq> ''Composite_Score'' \<longrightarrow> get r c = get r' c"
proof -
  let ?ks = "col (set_col ''Composite_Score'' composite_score fd) ''Composite_Score''"
  from assms(2) obtain i where i: "i \<in> set (argsort ?ks)"
    and r: "r = map (\<lambda>c. (c, get (put ''Composite_Score'' (composite_score (rows fd ! i)) (rows fd ! i)) c))
                  report_columns"
    and "i < length (rows fd)"
  proof -
    from assms(2) have "r \<in> set (map (\<lambda>r. map (\<lambda>c. (c, get r c)) report_columns)
        (map (\<lambda>i. rows (set_col ''Composite_Score'' composite_score fd) ! i) (argsort ?ks)))"
      by (auto simp: rank_candidates_def Let_def dest: in_set_takeD)
    then obtain i where a: "i \<in> set (argsort ?ks)"
      and b: "r = map (\<lambda>c. (c, get (rows (set_col ''Composite_Score'' composite_score fd) ! i) c)) report_columns"
      by auto
    have c: "i < length (rows fd)"
      using argsort_in_range [OF assms(1) a] by (simp add: col_def)
    with a b that show ?thesis by simp
  qed
  then have "rows fd ! i \<in> set (rows fd)" by simp
  moreover have "\<forall>c. c \<in> set report_columns \<and> c \<noteq> ''Composite_Score'' \<longrightarrow> get r c = get (rows fd ! i) c"
    by (simp add: r)
  ultimately show ?thesis by blast
qed

text \<open>
  C5, as far as the code goes. Every row of the final report has a sticker price, an
  average grant and a net price that are not missing. A sticker price of zero is not
  missing, and nothing excludes it.
\<close>

theorem absent_sticker_price_excluded:
  assumes "argsort_ok argsort"
    and "calculate_metrics copy_on_write hd_df sfa_p1 sfa_p2 ic adm_sat adm_rate gr mission
           = Inr ([], merged)"
    and "generate_insights argsort merged = Inr (ms, report)"
  shows "\<forall>r \<in> set (rows report).
           \<not> isna (get r ''Sticker_Price'') \<and> \<not> isna (get r ''Avg_Inst_Grant'')
           \<and> \<not> isna (get r ''Net_Price_MidClass'')"
proof
  fix r assume r: "r \<in> set (rows report)"
  let ?pool = "join_sequence hd_df sfa_p1 sfa_p2 ic adm_sat adm_rate gr mission"
  have d: "derive_metrics copy_on_write ?pool = Inr merged"
    using calculate_metrics_success [OF assms(2)] .
  have m: "rows merged = map (derived_row copy_on_write (median (col ?pool ''GBA4RTT''))) (rows ?pool)"
    using derive_metrics_rows [OF d has_old_columns_join_sequence] .
  have "report = rank_candidates argsort (select_candidates merged)"
    using generate_insights_Inr [OF assms(3)] by simp
  with r obtain r' where r': "r' \<in> set (rows (select_candidates merged))"
    and same: "\<forall>c. c \<in> set report_columns \<and> c \<noteq> ''Composite_Score'' \<longrightarrow> get r c = get r' c"
    using rows_rank_candidates_from [OF assms(1)] by blast
  from r' have "r' \<in> set (rows merged)"
    using rows_select_candidates_subset by blast
  then obtain r0 where r0: "r0 \<in> set (rows ?pool)"
    and r'0: "r' = derived_row copy_on_write (median (col ?pool ''GBA4RTT'')) r0"
    unfolding m by auto
  have "get r ''Sticker_Price'' = get r0 ''TUITION2''"
       "get r ''Avg_Inst_Grant'' = get r0 ''IGRNT_A''"
       "get r ''Net_Price_MidClass'' = get r0 ''NPT442''"
    using same by (simp_all add: report_columns_def r'0 get_derived_row_financials)
  then show "\<not> isna (get r ''Sticker_Price'') \<and> \<not> isna (get r ''Avg_Inst_Grant'')
           \<and> \<not> isna (get r ''Net_Price_MidClass'')"
    using rows_join_sequence_kept [OF r0] by simp
qed

lemma select_present: "missing_column cs df = None \<Longrightarrow> select cs df = Inr (project cs df)"
  by (simp add: select_def)

lemma calculate_metrics_complete:
  assumes "missing_column [''UNITID'', ''IGRNT_A''] sfa_p1 = None"
    and "missing_column [''UNITID'', ''NPT442''] sfa_p2 = None"
    and "missing_column [''UNITID'', ''SATVR75'', ''SATMT75''] adm_sat = None"
    and "missing_column [''UNITID'', ''DVADM01''] adm_rate = None"
    and "missing_column [''UNITID'', ''TUITION2''] ic = None"
    and "missing_column [''UNITID'', ''GBA4RTT''] gr = None"
    and "missing_column [''unitid'', ''mission''] mission = None"
    and "''UNITID'' \<in> set (columns hd_df)"
  shows "calculate_metrics copy_on_write hd_df sfa_p1 sfa_p2 ic adm_sat adm_rate gr mission
           = on_success
               (derive_metrics copy_on_write
                  (join_sequence hd_df sfa_p1 sfa_p2 ic adm_sat adm_rate gr mission))
               (\<lambda>df. Inr ([], df))"
  using assms
  by (simp add: calculate_metrics_def select_present on_success_def except_KeyError_def
        join_sequence_def merge_all_def Let_def dropna_def)

lemma columns_table_of [simp]: "columns (table_of cs vss) = cs"
  by (simp add: table_of_def)

lemma metrics_of_eq:
  "metrics_of copy_on_write xs
     = on_success (derive_metrics copy_on_write (pool_of xs)) (\<lambda>df. Inr ([], df))"
  unfolding metrics_of_def pool_of_def
  by (rule calculate_metrics_complete)
     (simp_all add: missing_column_def sfa_p1_csv_def sfa_p2_csv_def adm_sat_csv_def
        adm_rate_csv_def ic_csv_def gr_csv_def mission_csv_def hd_filtered_def)

lemma metrics_of_merged:
  "derive_metrics copy_on_write (pool_of xs) = Inr df
     \<Longrightarrow> metrics_of copy_on_write xs = Inr ([], df) \<and> merged_of copy_on_write xs = df"
  by (simp add: metrics_of_eq on_success_def merged_of_def)

lemma metrics_of_uneven:
  "calculate_metrics False (t_hd uneven) (t_sfa_p1 uneven) (t_sfa_p2 uneven) (t_ic uneven)
      (t_adm_sat uneven) (t_adm_rate uneven) (t_gr uneven) (t_mission uneven)
     = Inr ([], uneven_merged)
   \<and> map (\<lambda>r. map (get r) [''UNITID'', ''Sticker_Price'', ''Avg_Inst_Grant'', ''Net_Price_MidClass'',
                            ''SATVR75'', ''Admissions_Rate'', ''Graduation_Rate_4yr'', ''MISSION''])
         (rows uneven_merged)
       = [[Num (Fin 1), Num (Fin 1000), Num (Fin 500), Num (Fin 100), Num (Fin 600),
           Num (Fin (1 / 2)), Num (Fin (3 / 5)), Str ''Mission''],
          [Num (Fin 1), Num (Fin 1000), Num (Fin 500), Num (Fin 150), Num (Fin 600),
           Num (Fin (1 / 2)), Num (Fin (3 / 5)), Str ''Mission''],
          [Num (Fin 3), Num (Fin 1000), Num (Fin 500), Num (Fin 300), Num (Fin 650),
           Num NaN, Num (Fin (9 / 10)), Num NaN]]"
proof -
  have c: "calculate_metrics False (t_hd uneven) (t_sfa_p1 uneven) (t_sfa_p2 uneven) (t_ic uneven)
      (t_adm_sat uneven) (t_adm_rate uneven) (t_gr uneven) (t_mission uneven)
     = on_success (derive_metrics False uneven_pool) (\<lambda>df. Inr ([], df))"
    unfolding uneven_pool_def
    by (rule calculate_metrics_complete) (simp_all add: missing_column_def uneven_def)
  have "case derive_metrics False uneven_pool of
          Inr df \<Rightarrow>
            map (\<lambda>r. map (get r) [''UNITID'', ''Sticker_Price'', ''Avg_Inst_Grant'',
                     ''Net_Price_MidClass'', ''SATVR75'', ''Admissions_Rate'',
                     ''Graduation_Rate_4yr'', ''MISSION'']) (rows df)
              = [[Num (Fin 1), Num (Fin 1000), Num (Fin 500), Num (Fin 100), Num (Fin 600),
                  Num (Fin (1 / 2)), Num (Fin (3 / 5)), Str ''Mission''],
                 [Num (Fin 1), Num (Fin 1000), Num (Fin 500), Num (Fin 150), Num (Fin 600),
                  Num (Fin (1 / 2)), Num (Fin (3 / 5)), Str ''Mission''],
                 [Num (Fin 3), Num (Fin 1000), Num (Fin 500), Num (Fin 300), Num (Fin 650),
                  Num NaN, Num (Fin (9 / 10)), Num NaN]]
        | Inl e \<Rightarrow> False"
    by code_simp
  then show ?thesis
    unfolding c by (auto simp: on_success_def uneven_merged_def split: sum.splits)
qed

theorem join_sequence_then_drop_witness:
  "calculate_metrics False (t_hd uneven) (t_sfa_p1 uneven) (t_sfa_p2 uneven) (t_ic uneven)
      (t_adm_sat uneven) (t_adm_rate uneven) (t_gr uneven) (t_mission uneven)
     = Inr ([], uneven_merged)
   \<and> map (\<lambda>r. get r ''UNITID'') (rows (t_hd uneven))
       = [Num (Fin 1), Num (Fin 2), Num (Fin 3), Num (Fin 4)]
   \<and> map (\<lambda>r. get r ''UNITID'') (rows (t_sfa_p1 uneven))
       = [Num (Fin 1), Num (Fin 2), Num (Fin 3), Num (Fin 4), Num (Fin 5)]
   \<and> map (\<lambda>r. get r ''UNITID'') (rows (t_sfa_p2 uneven))
       = [Num (Fin 1), Num (Fin 1), Num (Fin 3), Num (Fin 4), Num (Fin 6)]
   \<and> map (\<lambda>r. get r ''TUITION2'') (rows (t_ic uneven))
       = [Num (Fin 1000), Num (Fin 1000), Num (Fin 1000), Num NaN]
   \<and> map (\<lambda>r. get r ''UNITID'') (rows (t_adm_rate uneven)) = [Num (Fin 1)]
   \<and> map (\<lambda>r. map (get r) [''UNITID'', ''Sticker_Price'', ''Avg_Inst_Grant'', ''Net_Price_MidClass'',
                            ''SATVR75'', ''Admissions_Rate'', ''Graduation_Rate_4yr'', ''MISSION''])
         (rows uneven_merged)
       = [[Num (Fin 1), Num (Fin 1000), Num (Fin 500), Num (Fin 100), Num (Fin 600),
           Num (Fin (1 / 2)), Num (Fin (3 / 5)), Str ''Mission''],
          [Num (Fin 1), Num (Fin 1000), Num (Fin 500), Num (Fin 150), Num (Fin 600),
           Num (Fin (1 / 2)), Num (Fin (3 / 5)), Str ''Mission''],
          [Num (Fin 3), Num (Fin 1000), Num (Fin 500), Num (Fin 300), Num (Fin 650),
           Num NaN, Num (Fin (9 / 10)), Num NaN]]"
proof -
  have run: "calculate_metrics False (t_hd uneven) (t_sfa_p1 uneven) (t_sfa_p2 uneven) (t_ic uneven)
      (t_adm_sat uneven) (t_adm_rate uneven) (t_gr uneven) (t_mission uneven)
     = Inr ([], uneven_merged)"
    using metrics_of_uneven by simp
  have tables:
    "map (\<lambda>r. get r ''UNITID'') (rows (t_hd uneven))
       = [Num (Fin 1), Num (Fin 2), Num (Fin 3), Num (Fin 4)]"
    "map (\<lambda>r. get r ''UNITID'') (rows (t_sfa_p1 uneven))
       = [Num (Fin 1), Num (Fin 2), Num (Fin 3), Num (Fin 4), Num (Fin 5)]"
    "map (\<lambda>r. get r ''UNITID'') (rows (t_sfa_p2 uneven))
       = [Num (Fin 1), Num (Fin 1), Num (Fin 3), Num (Fin 4), Num (Fin 6)]"
    "map (\<lambda>r. get r ''TUITION2'') (rows (t_ic uneven))
       = [Num (Fin 1000), Num (Fin 1000), Num (Fin 1000), Num NaN]"
    "map (\<lambda>r. get r ''UNITID'') (rows (t_adm_rate uneven)) = [Num (Fin 1)]"
    by code_simp+
  note join_sequence_then_drop [OF run]
  then show ?thesis using metrics_of_uneven tables by (simp only: simp_thms)
qed

lemma metrics_of_gaps:
  "metrics_of False gaps = Inr ([], merged_of False gaps) \<and> merged_ok (merged_of False gaps)
   \<and> map (\<lambda>r. get r ''UNITID'') (rows (merged_of False gaps))
       = [Num (Fin 1), Num (Fin 3), Num (Fin 4)]
   \<and> col (merged_of False gaps) ''Graduation_Rate_4yr'' = [Fin (3 / 5), Fin (3 / 4), Fin (9 / 10)]
   \<and> col (merged_of False gaps) ''MGI'' = [Fin (1 / 2), Fin (1 / 2), Fin (1 / 2)]"
proof -
  have "case derive_metrics False (pool_of gaps) of
          Inr df \<Rightarrow> merged_ok df
            \<and> map (\<lambda>r. get r ''UNITID'') (rows df) = [Num (Fin 1), Num (Fin 3), Num (Fin 4)]
            \<and> col df ''Graduation_Rate_4yr'' = [Fin (3 / 5), Fin (3 / 4), Fin (9 / 10)]
            \<and> col df ''MGI'' = [Fin (1 / 2), Fin (1 / 2), Fin (1 / 2)]
        | Inl e \<Rightarrow> False"
    by code_simp
  then show ?thesis
    using metrics_of_merged [of False gaps] by (auto split: sum.splits)
qed

text \<open>The same institutions under copy-on-write: the third keeps its missing rate.\<close>

lemma metrics_of_gaps_copy_on_write:
  "metrics_of True gaps = Inr ([], merged_of True gaps)
   \<and> map (\<lambda>r. get r ''UNITID'') (rows (merged_of True gaps))
       = [Num (Fin 1), Num (Fin 3), Num (Fin 4)]
   \<and> col (merged_of True gaps) ''Graduation_Rate_4yr'' = [Fin (3 / 5), NaN, Fin (9 / 10)]"
proof -
  have "case derive_metrics True (pool_of gaps) of
          Inr df \<Rightarrow>
            map (\<lambda>r. get r ''UNITID'') (rows df) = [Num (Fin 1), Num (Fin 3), Num (Fin 4)]
            \<and> col df ''Graduation_Rate_4yr'' = [Fin (3 / 5), NaN, Fin (9 / 10)]
        | Inl e \<Rightarrow> False"
    by code_simp
  then show ?thesis
    using metrics_of_merged [of True gaps] by (auto split: sum.splits)
qed

text \<open>Other institutions, other rates: the value that fills the gap is another one.\<close>

lemma metrics_of_gaps_odd:
  "metrics_of False gaps_odd = Inr ([], merged_of False gaps_odd)
   \<and> map (\<lambda>r. get r ''UNITID'') (rows (merged_of False gaps_odd))
       = [Num (Fin 1), Num (Fin 3), Num (Fin 4), Num (Fin 5)]
   \<and> col (merged_of False gaps_odd) ''Graduation_Rate_4yr''
       = [Fin (1 / 5), Fin (3 / 10), Fin (2 / 5), Fin (3 / 10)]"
proof -
  have "case derive_metrics False (pool_of gaps_odd) of
          Inr df \<Rightarrow>
            map (\<lambda>r. get r ''UNITID'') (rows df)
              = [Num (Fin 1), Num (Fin 3), Num (Fin 4), Num (Fin 5)]
            \<and> col df ''Graduation_Rate_4yr'' = [Fin (1 / 5), Fin (3 / 10), Fin (2 / 5), Fin (3 / 10)]
        | Inl e \<Rightarrow> False"
    by code_simp
  then show ?thesis
    using metrics_of_merged [of False gaps_odd] by (auto split: sum.splits)
qed

theorem graduation_rate_gap_fill_witness:
  "metrics_of False gaps = Inr ([], merged_of False gaps)
   \<and> col (pool_of gaps) ''GBA4RTT'' = [Fin 60, NaN, Fin 90]
   \<and> col (merged_of False gaps) ''Graduation_Rate_4yr'' = [Fin (3 / 5), Fin (3 / 4), Fin (9 / 10)]
   \<and> metrics_of True gaps = Inr ([], merged_of True gaps)
   \<and> col (merged_of True gaps) ''Graduation_Rate_4yr'' = [Fin (3 / 5), NaN, Fin (9 / 10)]
   \<and> metrics_of False gaps_odd = Inr ([], merged_of False gaps_odd)
   \<and> col (pool_of gaps_odd) ''GBA4RTT'' = [Fin 20, NaN, Fin 40, Fin 30]
   \<and> col (merged_of False gaps_odd) ''Graduation_Rate_4yr''
       = [Fin (1 / 5), Fin (3 / 10), Fin (2 / 5), Fin (3 / 10)]"
proof -
  have run: "calculate_metrics False (hd_filtered gaps) (sfa_p1_csv gaps) (sfa_p2_csv gaps)
        (ic_csv gaps) (adm_sat_csv gaps) (adm_rate_csv gaps) (gr_csv gaps) (mission_csv gaps)
      = Inr ([], merged_of False gaps)"
    using metrics_of_gaps by (simp add: metrics_of_def)
  have run_cow: "calculate_metrics True (hd_filtered gaps) (sfa_p1_csv gaps) (sfa_p2_csv gaps)
        (ic_csv gaps) (adm_sat_csv gaps) (adm_rate_csv gaps) (gr_csv gaps) (mission_csv gaps)
      = Inr ([], merged_of True gaps)"
    using metrics_of_gaps_copy_on_write by (simp add: metrics_of_def)
  have run_odd: "calculate_metrics False (hd_filtered gaps_odd) (sfa_p1_csv gaps_odd)
        (sfa_p2_csv gaps_odd) (ic_csv gaps_odd) (adm_sat_csv gaps_odd) (adm_rate_csv gaps_odd)
        (gr_csv gaps_odd) (mission_csv gaps_odd)
      = Inr ([], merged_of False gaps_odd)"
    using metrics_of_gaps_odd by (simp add: metrics_of_def)
  have pool: "col (pool_of gaps) ''GBA4RTT'' = [Fin 60, NaN, Fin 90]"
    "col (pool_of gaps_odd) ''GBA4RTT'' = [Fin 20, NaN, Fin 40, Fin 30]"
    by code_simp+
  have sorted: "sort_key asc_rank [Fin 60, Fin 90] = [Fin 60, Fin 90]"
    "sort_key asc_rank [Fin 20, Fin 40, Fin 30] = [Fin 20, Fin 30, Fin 40]"
    by code_simp+
  note graduation_rate_gap_fill [OF run] graduation_rate_gap_fill [OF run_cow]
    graduation_rate_gap_fill [OF run_odd]
  then show ?thesis
    using metrics_of_gaps metrics_of_gaps_copy_on_write metrics_of_gaps_odd pool
    by (simp add: Let_def pool_of_def [symmetric] sorted)
qed

lemma report_of_gaps:
  "generate_insights stable_argsort (merged_of False gaps)
     = Inr ([Relaxing_Warning 3], report_of False gaps)"
proof -
  have ok: "merged_ok (merged_of False gaps)" using metrics_of_gaps by simp
  have "selection_messages (merged_of False gaps) = [Relaxing_Warning 3]"
    unfolding merged_of_def by code_simp
  then show ?thesis
    using generate_insights_total [OF ok] by (simp add: report_of_def)
qed

theorem absent_sticker_price_excluded_witness:
  "argsort_ok stable_argsort
   \<and> metrics_of False gaps = Inr ([], merged_of False gaps)
   \<and> generate_insights stable_argsort (merged_of False gaps)
       = Inr ([Relaxing_Warning 3], report_of False gaps)
   \<and> map (\<lambda>r. get r ''UNITID'') (rows (report_of False gaps))
       = [Num (Fin 4), Num (Fin 3), Num (Fin 1)]
   \<and> list_all (\<lambda>r. \<not> isna (get r ''Sticker_Price'') \<and> \<not> isna (get r ''Avg_Inst_Grant'')
                   \<and> \<not> isna (get r ''Net_Price_MidClass'')) (rows (report_of False gaps))"
proof -
  have run: "calculate_metrics False (hd_filtered gaps) (sfa_p1_csv gaps) (sfa_p2_csv gaps)
        (ic_csv gaps) (adm_sat_csv gaps) (adm_rate_csv gaps) (gr_csv gaps) (mission_csv gaps)
      = Inr ([], merged_of False gaps)"
    using metrics_of_gaps by (simp add: metrics_of_def)
  have ids: "map (\<lambda>r. get r ''UNITID'') (rows (report_of False gaps))
       = [Num (Fin 4), Num (Fin 3), Num (Fin 1)]"
    unfolding report_of_def merged_of_def by code_simp
  note absent_sticker_price_excluded [OF argsort_ok_stable run report_of_gaps]
  then show ?thesis
    using argsort_ok_stable metrics_of_gaps report_of_gaps ids by (simp add: list_all_iff)
qed

text \<open>
  C5 as stated fails: of ten institutions that pass the strict filter, the tenth has a
  sticker price of zero. Its MGI is infinite, its Composite Score is NaN, and it is
  the last row of the report. No graduation rate is missing, and the table is the same
  with copy-on-write.
\<close>

theorem zero_sticker_price_in_report:
  "metrics_of False zero_sticker = Inr ([], merged_of False zero_sticker)
   \<and> metrics_of True zero_sticker = Inr ([], merged_of False zero_sticker)
   \<and> generate_insights stable_argsort (merged_of False zero_sticker)
       = Inr ([], report_of False zero_sticker)
   \<and> map (\<lambda>r. [get r ''UNITID'', get r ''Sticker_Price'', get r ''MGI'', get r ''Composite_Score''])
         (rows (report_of False zero_sticker))
       = [[Num (Fin 1), Num (Fin 1000), Num (Fin (1 / 2)), Num (Fin 10)],
          [Num (Fin 2), Num (Fin 1000), Num (Fin (1 / 2)), Num (Fin 5)],
          [Num (Fin 3), Num (Fin 1000), Num (Fin (1 / 2)), Num (Fin (10 / 3))],
          [Num (Fin 4), Num (Fin 1000), Num (Fin (1 / 2)), Num (Fin (5 / 2))],
          [Num (Fin 5), Num (Fin 1000), Num (Fin (1 / 2)), Num (Fin 2)],
          [Num (Fin 6), Num (Fin 1000), Num (Fin (1 / 2)), Num (Fin (5 / 3))],
          [Num (Fin 7), Num (Fin 1000), Num (Fin (1 / 2)), Num (Fin (10 / 7))],
          [Num (Fin 8), Num (Fin 1000), Num (Fin (1 / 2)), Num (Fin (5 / 4))],
          [Num (Fin 9), Num (Fin 1000), Num (Fin (1 / 2)), Num (Fin (10 / 9))],
          [Num (Fin 10), Num (Fin 0), Num PInf, Num NaN]]"
proof -
  have m: "case derive_metrics False (pool_of zero_sticker) of
          Inr df \<Rightarrow> merged_ok df \<and> selection_messages df = []
        | Inl e \<Rightarrow> False"
    by code_simp
  then have run: "metrics_of False zero_sticker = Inr ([], merged_of False zero_sticker)"
    and ok: "merged_ok (merged_of False zero_sticker)"
    and ms: "selection_messages (merged_of False zero_sticker) = []"
    using metrics_of_merged [of False zero_sticker] by (auto split: sum.splits)
  have "''GBA4RTT'' \<in> set (columns (pool_of zero_sticker))"
    "list_all (\<lambda>r. \<not> isna (get r ''GBA4RTT'')) (rows (pool_of zero_sticker))"
    by code_simp+
  then have "derive_metrics True (pool_of zero_sticker) = derive_metrics False (pool_of zero_sticker)"
    by (rule derive_metrics_no_gap)
  then have run_cow: "metrics_of True zero_sticker = Inr ([], merged_of False zero_sticker)"
    using run by (simp add: metrics_of_eq)
  have g: "generate_insights stable_argsort (merged_of False zero_sticker)
             = Inr ([], report_of False zero_sticker)"
    using generate_insights_total [OF ok] ms by (simp add: report_of_def)
  have "map (\<lambda>r. [get r ''UNITID'', get r ''Sticker_Price'', get r ''MGI'', get r ''Composite_Score''])
         (rows (report_of False zero_sticker))
       = [[Num (Fin 1), Num (Fin 1000), Num (Fin (1 / 2)), Num (Fin 10)],
          [Num (Fin 2), Num (Fin 1000), Num (Fin (1 / 2)), Num (Fin 5)],
          [Num (Fin 3), Num (Fin 1000), Num (Fin (1 / 2)), Num (Fin (10 / 3))],
          [Num (Fin 4), Num (Fin 1000), Num (Fin (1 / 2)), Num (Fin (5 / 2))],
          [Num (Fin 5), Num (Fin 1000), Num (Fin (1 / 2)), Num (Fin 2)],
          [Num (Fin 6), Num (Fin 1000), Num (Fin (1 / 2)), Num (Fin (5 / 3))],
          [Num (Fin 7), Num (Fin 1000), Num (Fin (1 / 2)), Num (Fin (10 / 7))],
          [Num (Fin 8), Num (Fin 1000), Num (Fin (1 / 2)), Num (Fin (5 / 4))],
          [Num (Fin 9), Num (Fin 1000), Num (Fin (1 / 2)), Num (Fin (10 / 9))],
          [Num (Fin 10), Num (Fin 0), Num PInf, Num NaN]]"
    unfolding report_of_def merged_of_def by code_simp
  then show ?thesis using run run_cow g by simp
qed

text \<open>The scores of that report are all different, so every sort gives this report.\<close>

lemma zero_sticker_any_sort:
  assumes "argsort_ok argsort"
  shows "generate_insights argsort (merged_of False zero_sticker)
           = Inr ([], report_of False zero_sticker)"
proof -
  have "case derive_metrics False (pool_of zero_sticker) of
          Inr df \<Rightarrow> merged_ok df \<and> selection_messages df = []
            \<and> distinct (map (\<lambda>r. desc_rank (numv (composite_score r)))
                 (rows (select_candidates df)))
        | Inl e \<Rightarrow> False"
    by code_simp
  then have ok: "merged_ok (merged_of False zero_sticker)"
    and ms: "selection_messages (merged_of False zero_sticker) = []"
    and d: "distinct (map (\<lambda>r. desc_rank (numv (composite_score r)))
                 (rows (select_candidates (merged_of False zero_sticker))))"
    using metrics_of_merged [of False zero_sticker] by (auto split: sum.splits)
  show ?thesis
    using generate_insights_total [OF ok, of argsort] ms rank_candidates_unique [OF assms d]
    by (simp add: report_of_def)
qed

subsection \<open>The scenario\<close>

text \<open>
  C9, as far as the code goes. For the two institutions of the scenario, every sort
  that meets \<open>argsort_ok\<close> and both modes of pandas: the MGIs are 0.4 and 0.6, the Net
  Price Ratios 0.9 and 0.3, the graduation rates 0.6 and 0.9, and the score formula
  gives 10/9 for A and 5 for B. Only B passes the strict tier, so the fallback runs,
  and it keeps B alone: the report is the one row of B, with the Composite Score 5.
\<close>

theorem scenario_report:
  assumes "argsort_ok argsort"
  shows "metrics_of copy_on_write scenario = Inr ([], merged_of copy_on_write scenario)
   \<and> col (merged_of copy_on_write scenario) ''MGI'' = [Fin (2 / 5), Fin (3 / 5)]
   \<and> col (merged_of copy_on_write scenario) ''NET_PRICE_RATIO'' = [Fin (9 / 10), Fin (3 / 10)]
   \<and> col (merged_of copy_on_write scenario) ''Graduation_Rate_4yr'' = [Fin (3 / 5), Fin (9 / 10)]
   \<and> map composite_score (rows (merged_of copy_on_write scenario))
       = [Num (Fin (10 / 9)), Num (Fin 5)]
   \<and> generate_insights argsort (merged_of copy_on_write scenario)
       = Inr ([Relaxing_Warning 1], report_of copy_on_write scenario)
   \<and> cells (report_of copy_on_write scenario)
       = [[Num (Fin 2), Str ''College'', Num (Fin 1), Num (Fin 50000), Num (Fin 30000),
           Num (Fin 15000), Num (Fin (3 / 5)), Num (Fin (9 / 10)), Num (Fin (2 / 5)),
           Num (Fin 600), Num (Fin 600), Num (Fin 5), Str ''Mission'']]"
proof -
  let ?facts = "\<lambda>mode. case derive_metrics mode (pool_of scenario) of
          Inr df \<Rightarrow> merged_ok df
            \<and> col df ''MGI'' = [Fin (2 / 5), Fin (3 / 5)]
            \<and> col df ''NET_PRICE_RATIO'' = [Fin (9 / 10), Fin (3 / 10)]
            \<and> col df ''Graduation_Rate_4yr'' = [Fin (3 / 5), Fin (9 / 10)]
            \<and> map composite_score (rows df) = [Num (Fin (10 / 9)), Num (Fin 5)]
            \<and> selection_messages df = [Relaxing_Warning 1]
            \<and> distinct (map (\<lambda>r. desc_rank (numv (composite_score r)))
                 (rows (select_candidates df)))
            \<and> cells (rank_candidates stable_argsort (select_candidates df))
                = [[Num (Fin 2), Str ''College'', Num (Fin 1), Num (Fin 50000), Num (Fin 30000),
                    Num (Fin 15000), Num (Fin (3 / 5)), Num (Fin (9 / 10)), Num (Fin (2 / 5)),
                    Num (Fin 600), Num (Fin 600), Num (Fin 5), Str ''Mission'']]
        | Inl e \<Rightarrow> False"
  have "?facts True" by code_simp
  moreover have "?facts False" by code_simp
  ultimately have "?facts copy_on_write" by (cases copy_on_write) simp_all
  then have m: "metrics_of copy_on_write scenario = Inr ([], merged_of copy_on_write scenario)"
    and ok: "merged_ok (merged_of copy_on_write scenario)"
    and cols: "col (merged_of copy_on_write scenario) ''MGI'' = [Fin (2 / 5), Fin (3 / 5)]"
      "col (merged_of copy_on_write scenario) ''NET_PRICE_RATIO'' = [Fin (9 / 10), Fin (3 / 10)]"
      "col (merged_of copy_on_write scenario) ''Graduation_Rate_4yr'' = [Fin (3 / 5), Fin (9 / 10)]"
      "map composite_score (rows (merged_of copy_on_write scenario))
         = [Num (Fin (10 / 9)), Num (Fin 5)]"
    and ms: "selection_messages (merged_of copy_on_write scenario) = [Relaxing_Warning 1]"
    and one: "distinct (map (\<lambda>r. desc_rank (numv (composite_score r)))
                 (rows (select_candidates (merged_of copy_on_write scenario))))"
    and c: "cells (report_of copy_on_write scenario)
       = [[Num (Fin 2), Str ''College'', Num (Fin 1), Num (Fin 50000), Num (Fin 30000),
           Num (Fin 15000), Num (Fin (3 / 5)), Num (Fin (9 / 10)), Num (Fin (2 / 5)),
           Num (Fin 600), Num (Fin 600), Num (Fin 5), Str ''Mission'']]"
    using metrics_of_merged [of copy_on_write scenario]
    by (auto simp: report_of_def split: sum.splits)
  have g: "generate_insights argsort (merged_of copy_on_write scenario)
             = Inr ([Relaxing_Warning 1], report_of copy_on_write scenario)"
    using generate_insights_total [OF ok, of argsort] ms
      rank_candidates_unique [OF assms one]
    by (simp add: report_of_def)
  show ?thesis using m cols g c by simp
qed

theorem scenario_report_witness:
  "argsort_ok stable_argsort
   \<and> generate_insights stable_argsort (merged_of False scenario)
       = Inr ([Relaxing_Warning 1], report_of False scenario)
   \<and> map (\<lambda>r. get r ''UNITID'') (rows (report_of False scenario)) = [Num (Fin 2)]"
proof -
  have "map (\<lambda>r. get r ''UNITID'') (rows (report_of False scenario)) = [Num (Fin 2)]"
    unfolding report_of_def merged_of_def by code_simp
  then show ?thesis
    using scenario_report [OF argsort_ok_stable, of False] argsort_ok_stable by simp
qed

text \<open>
  C9 as stated fails: A is not ranked below B, it is not in the report. The file that the
  pipeline writes for the scenario has the row of B and no other, in both modes of
  pandas.
\<close>

theorem scenario_report_omits_A:
  "report_view (run_phase_3_pipeline False stable_argsort (directory (csv_files scenario)))
     = Some [[Num (Fin 2), Str ''College'', Num (Fin 1), Num (Fin 50000), Num (Fin 30000),
              Num (Fin 15000), Num (Fin (3 / 5)), Num (Fin (9 / 10)), Num (Fin (2 / 5)),
              Num (Fin 600), Num (Fin 600), Num (Fin 5), Str ''Mission'']]
   \<and> report_view (run_phase_3_pipeline True stable_argsort (directory (csv_files scenario)))
     = Some [[Num (Fin 2), Str ''College'', Num (Fin 1), Num (Fin 50000), Num (Fin 30000),
              Num (Fin 15000), Num (Fin (3 / 5)), Num (Fin (9 / 10)), Num (Fin (2 / 5)),
              Num (Fin 600), Num (Fin 600), Num (Fin 5), Str ''Mission'']]"
  by code_simp

subsection \<open>The pipeline and its errors\<close>

lemma load_and_clean_data_messages:
  assumes "load_and_clean_data fs base_path files_map = Inr (m1, Some t)"
  shows "m1 = [Filter_Ok]"
  using assms
  by (auto simp: load_and_clean_data_def filter_and_return_def on_success_def Let_def
        split: sum.splits error.splits)

lemma calculate_metrics_messages:
  assumes "calculate_metrics copy_on_write hd_df sfa_p1 sfa_p2 ic adm_sat adm_rate gr mission
             = Inr (m2, merged)"
  shows "No_Colleges_Met \<notin> set m2"
  using assms
  unfolding calculate_metrics_def on_success_def except_KeyError_def
  by (auto simp: Let_def split: sum.splits error.splits if_splits)

text \<open>
  C2, as far as the code goes. When the tables are loaded and \<open>calculate_metrics\<close>
  returns a table, there are two ways to a run without result. If the merged table is
  empty, the run stops before the filters: it raises nothing, prints what the two
  stages printed and no notice, and writes no file. If the merged table is not empty
  and \<open>generate_insights\<close> returns a report without rows, the run raises nothing,
  shows no chart, ends with the notice that no college met the criteria, and has
  written the output file with that empty report.
\<close>

theorem empty_report_is_written:
  assumes "load_and_clean_data fs IPEDS_BASE_PATH ESSENTIAL_FILES = Inr (m1, Some t)"
    and "calculate_metrics copy_on_write (t_hd t) (t_sfa_p1 t) (t_sfa_p2 t) (t_ic t)
           (t_adm_sat t) (t_adm_rate t) (t_gr t) (t_mission t) = Inr (m2, merged)"
  shows "(is_empty merged \<longrightarrow>
            run_phase_3_pipeline copy_on_write argsort fs =
              \<lparr>printed = Starting # m1 @ [Data_Loaded 8] @ m2,
               written = None, charts_shown = False, raised = None\<rparr>
            \<and> No_Colleges_Met \<notin> set (Starting # m1 @ [Data_Loaded 8] @ m2))
       \<and> (\<not> is_empty merged \<and> generate_insights argsort merged = Inr (m3, report)
            \<and> rows report = [] \<longrightarrow>
            run_phase_3_pipeline copy_on_write argsort fs =
              \<lparr>printed = Starting # m1 @ [Data_Loaded 8] @ m2
                 @ [Initial_Merge_Size (length (rows merged)), Metrics_Calculated] @ m3
                 @ [Report_Generated 0, Saved_To IPEDS_BASE_PATH OUTPUT_FILE, No_Colleges_Met],
               written = Some (IPEDS_BASE_PATH, OUTPUT_FILE, report),
               charts_shown = False, raised = None\<rparr>)"
proof -
  have "m1 = [Filter_Ok]"
    using load_and_clean_data_messages [OF assms(1)] .
  moreover have "No_Colleges_Met \<notin> set m2"
    using calculate_metrics_messages [OF assms(2)] .
  ultimately show ?thesis
    using assms
    by (simp add: run_phase_3_pipeline_def transform_and_rank_def rank_and_save_def
          save_and_show_def stop_def is_empty_def Let_def ESSENTIAL_FILES_def)
qed

lemma loaded_no_match:
  "load_and_clean_data (directory (csv_files no_match)) IPEDS_BASE_PATH ESSENTIAL_FILES
     = Inr ([Filter_Ok], Some (loaded_of no_match))"
  by code_simp

lemma loaded_unpriced:
  "load_and_clean_data (directory (csv_files unpriced)) IPEDS_BASE_PATH ESSENTIAL_FILES
     = Inr ([Filter_Ok], Some (loaded_of unpriced))"
  by code_simp

theorem empty_report_is_written_witness:
  "load_and_clean_data (directory (csv_files no_match)) IPEDS_BASE_PATH ESSENTIAL_FILES
     = Inr ([Filter_Ok], Some (loaded_of no_match))
   \<and> metrics_of False no_match = Inr ([], merged_of False no_match)
   \<and> \<not> is_empty (merged_of False no_match)
   \<and> length (rows (merged_of False no_match)) = 2
   \<and> generate_insights stable_argsort (merged_of False no_match)
       = Inr ([Relaxing_Warning 1], report_of False no_match)
   \<and> rows (report_of False no_match) = []
   \<and> run_phase_3_pipeline False stable_argsort (directory (csv_files no_match)) =
        \<lparr>printed = [Starting, Filter_Ok, Data_Loaded 8, Initial_Merge_Size 2, Metrics_Calculated,
                    Relaxing_Warning 1, Report_Generated 0, Saved_To IPEDS_BASE_PATH OUTPUT_FILE, No_Colleges_Met],
         written = Some (IPEDS_BASE_PATH, OUTPUT_FILE, report_of False no_match),
         charts_shown = False, raised = None\<rparr>
   \<and> load_and_clean_data (directory (csv_files unpriced)) IPEDS_BASE_PATH ESSENTIAL_FILES
     = Inr ([Filter_Ok], Some (loaded_of unpriced))
   \<and> metrics_of False unpriced = Inr ([], merged_of False unpriced)
   \<and> is_empty (merged_of False unpriced)
   \<and> run_phase_3_pipeline False stable_argsort (directory (csv_files unpriced)) =
        \<lparr>printed = [Starting, Filter_Ok, Data_Loaded 8],
         written = None, charts_shown = False, raised = None\<rparr>"
proof -
  have "case derive_metrics False (pool_of no_match) of
          Inr df \<Rightarrow> merged_ok df \<and> length (rows df) = 2 \<and> columns df \<noteq> []
            \<and> selection_messages df = [Relaxing_Warning 1]
            \<and> rows (rank_candidates stable_argsort (select_candidates df)) = []
        | Inl e \<Rightarrow> False"
    by code_simp
  then have m: "metrics_of False no_match = Inr ([], merged_of False no_match)"
    and ok: "merged_ok (merged_of False no_match)"
    and len: "length (rows (merged_of False no_match)) = 2"
    and cs: "columns (merged_of False no_match) \<noteq> []"
    and ms: "selection_messages (merged_of False no_match) = [Relaxing_Warning 1]"
    and none: "rows (report_of False no_match) = []"
    using metrics_of_merged [of False no_match] by (auto simp: report_of_def split: sum.splits)
  have g: "generate_insights stable_argsort (merged_of False no_match)
             = Inr ([Relaxing_Warning 1], report_of False no_match)"
    using generate_insights_total [OF ok, of stable_argsort] ms by (simp add: report_of_def)
  have m': "calculate_metrics False (t_hd (loaded_of no_match)) (t_sfa_p1 (loaded_of no_match))
              (t_sfa_p2 (loaded_of no_match)) (t_ic (loaded_of no_match))
              (t_adm_sat (loaded_of no_match)) (t_adm_rate (loaded_of no_match))
              (t_gr (loaded_of no_match)) (t_mission (loaded_of no_match))
            = Inr ([], merged_of False no_match)"
    using m by (simp add: loaded_of_def metrics_of_def)
  have ne: "\<not> is_empty (merged_of False no_match)"
    using len cs by (auto simp: is_empty_def)
  have "case derive_metrics False (pool_of unpriced) of
          Inr df \<Rightarrow> rows df = []
        | Inl e \<Rightarrow> False"
    by code_simp
  then have u: "metrics_of False unpriced = Inr ([], merged_of False unpriced)"
    and e: "is_empty (merged_of False unpriced)"
    using metrics_of_merged [of False unpriced] by (auto simp: is_empty_def split: sum.splits)
  have u': "calculate_metrics False (t_hd (loaded_of unpriced)) (t_sfa_p1 (loaded_of unpriced))
              (t_sfa_p2 (loaded_of unpriced)) (t_ic (loaded_of unpriced))
              (t_adm_sat (loaded_of unpriced)) (t_adm_rate (loaded_of unpriced))
              (t_gr (loaded_of unpriced)) (t_mission (loaded_of unpriced))
            = Inr ([], merged_of False unpriced)"
    using u by (simp add: loaded_of_def metrics_of_def)
  note empty_report_is_written [OF loaded_no_match m',
      of stable_argsort "[Relaxing_Warning 1]" "report_of False no_match"]
    empty_report_is_written [OF loaded_unpriced u', of stable_argsort]
  then show ?thesis using loaded_no_match loaded_unpriced m u e ne len g none by simp
qed

text \<open>
  C2 as stated fails: with two institutions of which none passes the relaxed selection,
  the output file is written, with the report columns and no row. Neither has a missing
  graduation rate, and the run is the same in both modes of pandas.
\<close>

theorem empty_report_file_counterexample:
  "written (run_phase_3_pipeline False stable_argsort (directory (csv_files no_match)))
     = Some (IPEDS_BASE_PATH, OUTPUT_FILE, \<lparr>columns = report_columns, rows = []\<rparr>)
   \<and> printed (run_phase_3_pipeline False stable_argsort (directory (csv_files no_match)))
     = [Starting, Filter_Ok, Data_Loaded 8, Initial_Merge_Size 2, Metrics_Calculated,
        Relaxing_Warning 1, Report_Generated 0, Saved_To IPEDS_BASE_PATH OUTPUT_FILE, No_Colleges_Met]
   \<and> raised (run_phase_3_pipeline False stable_argsort (directory (csv_files no_match))) = None
   \<and> run_phase_3_pipeline True stable_argsort (directory (csv_files no_match))
     = run_phase_3_pipeline False stable_argsort (directory (csv_files no_match))"
  by code_simp

text \<open>
  C3 does not hold of the code: the selections from the two financial-aid tables and
  from the tuition table stand outside every \<open>try\<close>. When a required column of
  financial aid part 1 is missing, \<open>calculate_metrics\<close> raises KeyError for it, whatever
  the other tables are; it returns no table.
\<close>

theorem missing_grant_column_raises:
  assumes "missing_column [''UNITID'', ''IGRNT_A''] sfa_p1 = Some c"
  shows "calculate_metrics copy_on_write hd_df sfa_p1 sfa_p2 ic adm_sat adm_rate gr mission
           = Inl (KeyError c)"
  using assms by (simp add: calculate_metrics_def select_def on_success_def)

lemma missing_net_price_column_raises:
  assumes "missing_column [''UNITID'', ''IGRNT_A''] sfa_p1 = None"
    and "missing_column [''UNITID'', ''NPT442''] sfa_p2 = Some c"
  shows "calculate_metrics copy_on_write hd_df sfa_p1 sfa_p2 ic adm_sat adm_rate gr mission
           = Inl (KeyError c)"
  using assms by (simp add: calculate_metrics_def select_def on_success_def)

lemma missing_tuition_column_raises:
  assumes "missing_column [''UNITID'', ''IGRNT_A''] sfa_p1 = None"
    and "missing_column [''UNITID'', ''NPT442''] sfa_p2 = None"
    and "missing_column [''UNITID'', ''SATVR75'', ''SATMT75''] adm_sat = None"
    and "missing_column [''UNITID'', ''DVADM01''] adm_rate = None"
    and "missing_column [''UNITID'', ''TUITION2''] ic = Some c"
  shows "calculate_metrics copy_on_write hd_df sfa_p1 sfa_p2 ic adm_sat adm_rate gr mission
           = Inl (KeyError c)"
  using assms
  by (simp add: calculate_metrics_def select_def on_success_def except_KeyError_def Let_def)

text \<open>The guarded selections: admissions, outcomes, mission.\<close>

lemma missing_admissions_column_reported:
  assumes "missing_column [''UNITID'', ''IGRNT_A''] sfa_p1 = None"
    and "missing_column [''UNITID'', ''NPT442''] sfa_p2 = None"
    and "missing_column [''UNITID'', ''SATVR75'', ''SATMT75''] adm_sat = Some c"
  shows "calculate_metrics copy_on_write hd_df sfa_p1 sfa_p2 ic adm_sat adm_rate gr mission
           = Inr ([Critical_Admissions_Error c], empty_frame)"
  using assms
  by (simp add: calculate_metrics_def select_def on_success_def except_KeyError_def Let_def)

lemma missing_outcomes_column_reported:
  assumes "missing_column [''UNITID'', ''IGRNT_A''] sfa_p1 = None"
    and "missing_column [''UNITID'', ''NPT442''] sfa_p2 = None"
    and "missing_column [''UNITID'', ''SATVR75'', ''SATMT75''] adm_sat = None"
    and "missing_column [''UNITID'', ''DVADM01''] adm_rate = None"
    and "missing_column [''UNITID'', ''TUITION2''] ic = None"
    and "missing_column [''UNITID'', ''GBA4RTT''] gr = Some c"
  shows "calculate_metrics copy_on_write hd_df sfa_p1 sfa_p2 ic adm_sat adm_rate gr mission
           = Inr ([Critical_Graduation_Rate_Error c], empty_frame)"
  using assms
  by (simp add: calculate_metrics_def select_def on_success_def except_KeyError_def Let_def)

theorem missing_grant_column_raises_witness:
  "missing_column [''UNITID'', ''IGRNT_A''] (project [''UNITID''] (sfa_p1_csv scenario))
     = Some ''IGRNT_A''
   \<and> calculate_metrics False (hd_filtered scenario) (project [''UNITID''] (sfa_p1_csv scenario))
        (sfa_p2_csv scenario) (ic_csv scenario) (adm_sat_csv scenario) (adm_rate_csv scenario)
        (gr_csv scenario) (mission_csv scenario) = Inl (KeyError ''IGRNT_A'')
   \<and> raised (run_phase_3_pipeline False stable_argsort (directory without_grant_column))
       = Some (KeyError ''IGRNT_A'')
   \<and> written (run_phase_3_pipeline False stable_argsort (directory without_grant_column)) = None
   \<and> raised (run_phase_3_pipeline True stable_argsort (directory without_grant_column))
       = Some (KeyError ''IGRNT_A'')
   \<and> written (run_phase_3_pipeline True stable_argsort (directory without_grant_column)) = None"
proof -
  have a: "missing_column [''UNITID'', ''IGRNT_A''] (project [''UNITID''] (sfa_p1_csv scenario))
     = Some ''IGRNT_A''"
    by code_simp
  have b: "raised (run_phase_3_pipeline False stable_argsort (directory without_grant_column))
       = Some (KeyError ''IGRNT_A'')
   \<and> written (run_phase_3_pipeline False stable_argsort (directory without_grant_column)) = None
   \<and> raised (run_phase_3_pipeline True stable_argsort (directory without_grant_column))
       = Some (KeyError ''IGRNT_A'')
   \<and> written (run_phase_3_pipeline True stable_argsort (directory without_grant_column)) = None"
    by code_simp
  note missing_grant_column_raises [OF a, of False]
  then show ?thesis using a b by simp
qed

subsection \<open>The Table Loader\<close>

lemma replace_special_cells:
  "replace_special raw =
     raw\<lparr>rows := map (map (\<lambda>(k, v). (k, if v = Num (Fin (- 1)) \<or> v = Num (Fin (- 2))
                                               \<or> v = Num (Fin (- 9)) then Num NaN else v)))
                     (rows raw)\<rparr>"
  by (simp add: replace_special_def replace_cell_def)

lemma get_replaced:
  "get (map (\<lambda>(k, v). (k, replace_cell v)) r) c = replace_cell (get r c)"
proof (induction r)
  case Nil
  show ?case by (simp add: replace_cell_def)
next
  case (Cons p r)
  then show ?case by (cases p) simp
qed

lemma load_core_tables_essential:
  assumes "load_core_tables fs base_path ESSENTIAL_FILES Map.empty = Inr data"
  shows "data ''hd'' = fs base_path ''HD2022.csv''
       \<and> data ''sfa_p1'' = fs base_path ''SFA2122_P1.csv''
       \<and> data ''sfa_p2'' = fs base_path ''SFA2122_P2.csv''
       \<and> data ''ic'' = fs base_path ''IC2022_AY.csv''
       \<and> data ''adm_sat'' = fs base_path ''ADM2022.csv''
       \<and> data ''adm_rate'' = fs base_path ''DRVADM2022.csv''
       \<and> data ''gr'' = fs base_path ''DRVGR2022.csv''
       \<and> data ''mission'' = fs base_path ''IC2022Mission.csv''
       \<and> fs base_path ''HD2022.csv'' \<noteq> None
       \<and> fs base_path ''SFA2122_P1.csv'' \<noteq> None
       \<and> fs base_path ''SFA2122_P2.csv'' \<noteq> None
       \<and> fs base_path ''IC2022_AY.csv'' \<noteq> None
       \<and> fs base_path ''ADM2022.csv'' \<noteq> None
       \<and> fs base_path ''DRVADM2022.csv'' \<noteq> None
       \<and> fs base_path ''DRVGR2022.csv'' \<noteq> None
       \<and> fs base_path ''IC2022Mission.csv'' \<noteq> None"
  using assms
  by (auto simp: ESSENTIAL_FILES_def split: option.splits)

lemma clean_tables_survey:
  assumes "data ''sfa_p1'' = Some a" "data ''sfa_p2'' = Some b" "data ''ic'' = Some c"
    "data ''adm_sat'' = Some d" "data ''adm_rate'' = Some e" "data ''gr'' = Some f"
  shows "clean_tables survey_tables data =
           data(''sfa_p1'' \<mapsto> replace_special a, ''sfa_p2'' \<mapsto> replace_special b,
                ''ic'' \<mapsto> replace_special c, ''adm_sat'' \<mapsto> replace_special d,
                ''adm_rate'' \<mapsto> replace_special e, ''gr'' \<mapsto> replace_special f)"
  using assms by (simp add: survey_tables_def)

text \<open>
  C6. When the loader returns its tables, each of the six survey tables (financial aid
  parts 1 and 2, tuition, admissions scores, admissions rates, outcomes) is the table
  read from its file with every cell \<open>-1\<close>, \<open>-2\<close> or \<open>-9\<close> replaced by NaN and every
  other cell as read; the mission table is the table read from its file; and the
  institution table is the filter applied to the directory table as read.
\<close>

theorem special_values_normalised:
  assumes "load_and_clean_data fs base_path ESSENTIAL_FILES = Inr (ms, Some t)"
  shows "(let normal = (\<lambda>raw. raw\<lparr>rows :=
                map (map (\<lambda>(k, v). (k, if v = Num (Fin (- 1)) \<or> v = Num (Fin (- 2))
                                          \<or> v = Num (Fin (- 9)) then Num NaN else v)))
                  (rows raw)\<rparr>)
          in map_option normal (fs base_path ''SFA2122_P1.csv'') = Some (t_sfa_p1 t)
           \<and> map_option normal (fs base_path ''SFA2122_P2.csv'') = Some (t_sfa_p2 t)
           \<and> map_option normal (fs base_path ''IC2022_AY.csv'') = Some (t_ic t)
           \<and> map_option normal (fs base_path ''ADM2022.csv'') = Some (t_adm_sat t)
           \<and> map_option normal (fs base_path ''DRVADM2022.csv'') = Some (t_adm_rate t)
           \<and> map_option normal (fs base_path ''DRVGR2022.csv'') = Some (t_gr t)
           \<and> fs base_path ''IC2022Mission.csv'' = Some (t_mission t)
           \<and> map_option filter_institutions (fs base_path ''HD2022.csv'') = Some (Inr (t_hd t)))"
proof -
  from assms obtain data where
    l: "load_core_tables fs base_path ESSENTIAL_FILES Map.empty = Inr data"
    and r: "on_success (lookup (clean_tables survey_tables data) ''hd'')
              (filter_and_return (clean_tables survey_tables data)) = Inr (ms, Some t)"
    by (auto simp: load_and_clean_data_def Let_def split: sum.splits)
  note e = load_core_tables_essential [OF l]
  from e obtain hd_raw a b c d e' f mi where raw:
    "data ''hd'' = Some hd_raw" "data ''sfa_p1'' = Some a" "data ''sfa_p2'' = Some b"
    "data ''ic'' = Some c" "data ''adm_sat'' = Some d" "data ''adm_rate'' = Some e'"
    "data ''gr'' = Some f" "data ''mission'' = Some mi"
    by (metis not_None_eq)
  have cl: "clean_tables survey_tables data =
           data(''sfa_p1'' \<mapsto> replace_special a, ''sfa_p2'' \<mapsto> replace_special b,
                ''ic'' \<mapsto> replace_special c, ''adm_sat'' \<mapsto> replace_special d,
                ''adm_rate'' \<mapsto> replace_special e', ''gr'' \<mapsto> replace_special f)"
    using clean_tables_survey raw by blast
  from r have t: "filter_institutions hd_raw = Inr (t_hd t)"
    "t_sfa_p1 t = replace_special a" "t_sfa_p2 t = replace_special b"
    "t_ic t = replace_special c" "t_adm_sat t = replace_special d"
    "t_adm_rate t = replace_special e'" "t_gr t = replace_special f" "t_mission t = mi"
    unfolding cl
    by (auto simp: on_success_def lookup_def filter_and_return_def return_tables_def raw
          split: sum.splits error.splits)
  have files: "fs base_path ''HD2022.csv'' = Some hd_raw"
    "fs base_path ''SFA2122_P1.csv'' = Some a" "fs base_path ''SFA2122_P2.csv'' = Some b"
    "fs base_path ''IC2022_AY.csv'' = Some c" "fs base_path ''ADM2022.csv'' = Some d"
    "fs base_path ''DRVADM2022.csv'' = Some e'" "fs base_path ''DRVGR2022.csv'' = Some f"
    "fs base_path ''IC2022Mission.csv'' = Some mi"
    using e raw by simp_all
  show ?thesis
    by (simp add: Let_def replace_special_cells [symmetric] files t)
qed

theorem special_values_normalised_witness:
  "load_and_clean_data (directory (csv_files special_values)) IPEDS_BASE_PATH ESSENTIAL_FILES
     = Inr ([Filter_Ok], Some (tables_of (directory (csv_files special_values))))
   \<and> cells (sfa_p1_csv special_values) = [[Num (Fin 1), Num (Fin (- 1))], [Num (Fin 2), Num (Fin 500)]]
   \<and> cells (t_sfa_p1 (tables_of (directory (csv_files special_values))))
       = [[Num (Fin 1), Num NaN], [Num (Fin 2), Num (Fin 500)]]
   \<and> cells (gr_csv special_values) = [[Num (Fin 1), Num (Fin (- 9))], [Num (Fin 2), Num (Fin 60)]]
   \<and> cells (t_gr (tables_of (directory (csv_files special_values))))
       = [[Num (Fin 1), Num NaN], [Num (Fin 2), Num (Fin 60)]]
   \<and> cells (adm_rate_csv special_values) = [[Num (Fin 1), Num (Fin (- 2))], [Num (Fin 2), Num (Fin 50)]]
   \<and> cells (t_adm_rate (tables_of (directory (csv_files special_values))))
       = [[Num (Fin 1), Num NaN], [Num (Fin 2), Num (Fin 50)]]
   \<and> cells (t_hd (tables_of (directory (csv_files special_values))))
       = [[Num (Fin 1), Str ''College'', Num (Fin (- 2))], [Num (Fin 2), Str ''College'', Num (Fin 1)]]
   \<and> directory (csv_files special_values) IPEDS_BASE_PATH ''IC2022Mission.csv''
       = Some (t_mission (tables_of (directory (csv_files special_values))))"
proof -
  have "case load_and_clean_data (directory (csv_files special_values)) IPEDS_BASE_PATH
               ESSENTIAL_FILES of
          Inr (ms, Some t) \<Rightarrow> ms = [Filter_Ok]
            \<and> cells (t_sfa_p1 t) = [[Num (Fin 1), Num NaN], [Num (Fin 2), Num (Fin 500)]]
            \<and> cells (t_gr t) = [[Num (Fin 1), Num NaN], [Num (Fin 2), Num (Fin 60)]]
            \<and> cells (t_adm_rate t) = [[Num (Fin 1), Num NaN], [Num (Fin 2), Num (Fin 50)]]
            \<and> cells (t_hd t)
                = [[Num (Fin 1), Str ''College'', Num (Fin (- 2))],
                   [Num (Fin 2), Str ''College'', Num (Fin 1)]]
        | Inr (ms, None) \<Rightarrow> False
        | Inl e \<Rightarrow> False"
    by code_simp
  then have run: "load_and_clean_data (directory (csv_files special_values)) IPEDS_BASE_PATH
        ESSENTIAL_FILES = Inr ([Filter_Ok], Some (tables_of (directory (csv_files special_values))))"
    and after:
      "cells (t_sfa_p1 (tables_of (directory (csv_files special_values))))
         = [[Num (Fin 1), Num NaN], [Num (Fin 2), Num (Fin 500)]]"
      "cells (t_gr (tables_of (directory (csv_files special_values))))
         = [[Num (Fin 1), Num NaN], [Num (Fin 2), Num (Fin 60)]]"
      "cells (t_adm_rate (tables_of (directory (csv_files special_values))))
         = [[Num (Fin 1), Num NaN], [Num (Fin 2), Num (Fin 50)]]"
      "cells (t_hd (tables_of (directory (csv_files special_values))))
         = [[Num (Fin 1), Str ''College'', Num (Fin (- 2))],
            [Num (Fin 2), Str ''College'', Num (Fin 1)]]"
    by (auto simp: tables_of_def split: sum.splits option.splits)
  have before:
    "cells (sfa_p1_csv special_values) = [[Num (Fin 1), Num (Fin (- 1))], [Num (Fin 2), Num (Fin 500)]]"
    "cells (gr_csv special_values) = [[Num (Fin 1), Num (Fin (- 9))], [Num (Fin 2), Num (Fin 60)]]"
    "cells (adm_rate_csv special_values) = [[Num (Fin 1), Num (Fin (- 2))], [Num (Fin 2), Num (Fin 50)]]"
    by code_simp+
  note special_values_normalised [OF run]
  then show ?thesis using run after before by (simp add: Let_def)
qed

end
